theory Spec2Isabelle
  imports Main
begin

section \<open>Texts of the bot\<close>

text \<open>
  A Go string is a sequence of bytes, and so is a \<^typ>\<open>string\<close> of HOL. The texts of
  \<^verbatim>\<open>main.go\<close> are Russian; each constant below is the UTF-8 encoding of the literal
  in the source, byte by byte. The Go program also writes a log; no property stated here
  is about the log, and the embedding leaves it out.
\<close>

text \<open>The label of the single reply button (line 20), the Russian for "New Letter".\<close>

definition NEW_LETTER_BUTTON_TEXT :: string where
  "NEW_LETTER_BUTTON_TEXT =
    [CHR 0xD0, CHR 0x9D, CHR 0xD0, CHR 0xBE, CHR 0xD0, CHR 0xB2, CHR 0xD0, CHR 0xBE,
     CHR 0xD0, CHR 0xB5, CHR 0x20, CHR 0xD0, CHR 0x9F, CHR 0xD0, CHR 0xB8, CHR 0xD1,
     CHR 0x81, CHR 0xD1, CHR 0x8C, CHR 0xD0, CHR 0xBC, CHR 0xD0, CHR 0xBE]"

text \<open>The greeting sent on the start command (line 202).\<close>

definition msg_greeting :: string where
  "msg_greeting =
    [CHR 0xD0, CHR 0x9F, CHR 0xD1, CHR 0x80, CHR 0xD0, CHR 0xB8, CHR 0xD0, CHR 0xB2,
     CHR 0xD0, CHR 0xB5, CHR 0xD1, CHR 0x82, CHR 0x21, CHR 0x20, CHR 0xD0, CHR 0x9D,
     CHR 0xD0, CHR 0xB0, CHR 0xD0, CHR 0xB6, CHR 0xD0, CHR 0xBC, CHR 0xD0, CHR 0xB8,
     CHR 0xD1, CHR 0x82, CHR 0xD0, CHR 0xB5, CHR 0x20, CHR 0xD0, CHR 0xBA, CHR 0xD0,
     CHR 0xBD, CHR 0xD0, CHR 0xBE, CHR 0xD0, CHR 0xBF, CHR 0xD0, CHR 0xBA, CHR 0xD1,
     CHR 0x83, CHR 0x20, CHR 0x27, CHR 0xD0, CHR 0x9D, CHR 0xD0, CHR 0xBE, CHR 0xD0,
     CHR 0xB2, CHR 0xD0, CHR 0xBE, CHR 0xD0, CHR 0xB5, CHR 0x20, CHR 0xD0, CHR 0x9F,
     CHR 0xD0, CHR 0xB8, CHR 0xD1, CHR 0x81, CHR 0xD1, CHR 0x8C, CHR 0xD0, CHR 0xBC,
     CHR 0xD0, CHR 0xBE, CHR 0x27, CHR 0x2C, CHR 0x20, CHR 0xD1, CHR 0x87, CHR 0xD1,
     CHR 0x82, CHR 0xD0, CHR 0xBE, CHR 0xD0, CHR 0xB1, CHR 0xD1, CHR 0x8B, CHR 0x20,
     CHR 0xD0, CHR 0xBD, CHR 0xD0, CHR 0xB0, CHR 0xD1, CHR 0x87, CHR 0xD0, CHR 0xB0,
     CHR 0xD1, CHR 0x82, CHR 0xD1, CHR 0x8C, CHR 0x20, CHR 0xD0, CHR 0xBE, CHR 0xD1,
     CHR 0x82, CHR 0xD0, CHR 0xBF, CHR 0xD1, CHR 0x80, CHR 0xD0, CHR 0xB0, CHR 0xD0,
     CHR 0xB2, CHR 0xD0, CHR 0xBA, CHR 0xD1, CHR 0x83, CHR 0x2E]"

text \<open>The guided re-prompt for stray input (line 215).\<close>

definition msg_reprompt :: string where
  "msg_reprompt =
    [CHR 0xD0, CHR 0x9F, CHR 0xD0, CHR 0xBE, CHR 0xD0, CHR 0xB6, CHR 0xD0, CHR 0xB0,
     CHR 0xD0, CHR 0xBB, CHR 0xD1, CHR 0x83, CHR 0xD0, CHR 0xB9, CHR 0xD1, CHR 0x81,
     CHR 0xD1, CHR 0x82, CHR 0xD0, CHR 0xB0, CHR 0x2C, CHR 0x20, CHR 0xD0, CHR 0xBD,
     CHR 0xD0, CHR 0xB0, CHR 0xD1, CHR 0x87, CHR 0xD0, CHR 0xBD, CHR 0xD0, CHR 0xB8,
     CHR 0xD1, CHR 0x82, CHR 0xD0, CHR 0xB5, CHR 0x20, CHR 0xD1, CHR 0x81, CHR 0x20,
     CHR 0xD0, CHR 0xBA, CHR 0xD0, CHR 0xBE, CHR 0xD0, CHR 0xBC, CHR 0xD0, CHR 0xB0,
     CHR 0xD0, CHR 0xBD, CHR 0xD0, CHR 0xB4, CHR 0xD1, CHR 0x8B, CHR 0x20, CHR 0x2F,
     CHR 0x73, CHR 0x74, CHR 0x61, CHR 0x72, CHR 0x74, CHR 0x20, CHR 0xD0, CHR 0xB8,
     CHR 0xD0, CHR 0xBB, CHR 0xD0, CHR 0xB8, CHR 0x20, CHR 0xD0, CHR 0xBD, CHR 0xD0,
     CHR 0xB0, CHR 0xD0, CHR 0xB6, CHR 0xD0, CHR 0xBC, CHR 0xD0, CHR 0xB8, CHR 0xD1,
     CHR 0x82, CHR 0xD0, CHR 0xB5, CHR 0x20, CHR 0x27, CHR 0xD0, CHR 0x9D, CHR 0xD0,
     CHR 0xBE, CHR 0xD0, CHR 0xB2, CHR 0xD0, CHR 0xBE, CHR 0xD0, CHR 0xB5, CHR 0x20,
     CHR 0xD0, CHR 0x9F, CHR 0xD0, CHR 0xB8, CHR 0xD1, CHR 0x81, CHR 0xD1, CHR 0x8C,
     CHR 0xD0, CHR 0xBC, CHR 0xD0, CHR 0xBE, CHR 0x27, CHR 0x2E]"

text \<open>The prompt for the subject (line 226).\<close>

definition msg_enter_subject :: string where
  "msg_enter_subject =
    [CHR 0xD0, CHR 0x92, CHR 0xD0, CHR 0xB2, CHR 0xD0, CHR 0xB5, CHR 0xD0, CHR 0xB4,
     CHR 0xD0, CHR 0xB8, CHR 0xD1, CHR 0x82, CHR 0xD0, CHR 0xB5, CHR 0x20, CHR 0xD1,
     CHR 0x82, CHR 0xD0, CHR 0xB5, CHR 0xD0, CHR 0xBC, CHR 0xD1, CHR 0x83, CHR 0x20,
     CHR 0xD0, CHR 0xBF, CHR 0xD0, CHR 0xB8, CHR 0xD1, CHR 0x81, CHR 0xD1, CHR 0x8C,
     CHR 0xD0, CHR 0xBC, CHR 0xD0, CHR 0xB0, CHR 0x2E]"

text \<open>The prompt for the body (line 233).\<close>

definition msg_enter_body :: string where
  "msg_enter_body =
    [CHR 0xD0, CHR 0x92, CHR 0xD0, CHR 0xB2, CHR 0xD0, CHR 0xB5, CHR 0xD0, CHR 0xB4,
     CHR 0xD0, CHR 0xB8, CHR 0xD1, CHR 0x82, CHR 0xD0, CHR 0xB5, CHR 0x20, CHR 0xD1,
     CHR 0x82, CHR 0xD0, CHR 0xB5, CHR 0xD0, CHR 0xBA, CHR 0xD1, CHR 0x81, CHR 0xD1,
     CHR 0x82, CHR 0x20, CHR 0xD0, CHR 0xBF, CHR 0xD0, CHR 0xB8, CHR 0xD1, CHR 0x81,
     CHR 0xD1, CHR 0x8C, CHR 0xD0, CHR 0xBC, CHR 0xD0, CHR 0xB0, CHR 0x2E]"

text \<open>The prompt for the sender name (line 238).\<close>

definition msg_enter_sender :: string where
  "msg_enter_sender =
    [CHR 0xD0, CHR 0xA3, CHR 0xD0, CHR 0xBA, CHR 0xD0, CHR 0xB0, CHR 0xD0, CHR 0xB6,
     CHR 0xD0, CHR 0xB8, CHR 0xD1, CHR 0x82, CHR 0xD0, CHR 0xB5, CHR 0x20, CHR 0xD0,
     CHR 0xB8, CHR 0xD0, CHR 0xBC, CHR 0xD1, CHR 0x8F, CHR 0x20, CHR 0xD0, CHR 0xBE,
     CHR 0xD1, CHR 0x82, CHR 0xD0, CHR 0xBF, CHR 0xD1, CHR 0x80, CHR 0xD0, CHR 0xB0,
     CHR 0xD0, CHR 0xB2, CHR 0xD0, CHR 0xB8, CHR 0xD1, CHR 0x82, CHR 0xD0, CHR 0xB5,
     CHR 0xD0, CHR 0xBB, CHR 0xD1, CHR 0x8F, CHR 0x2E]"

text \<open>The interim acknowledgment (line 242).\<close>

definition msg_sending :: string where
  "msg_sending =
    [CHR 0xD0, CHR 0x9E, CHR 0xD1, CHR 0x82, CHR 0xD0, CHR 0xBF, CHR 0xD1, CHR 0x80,
     CHR 0xD0, CHR 0xB0, CHR 0xD0, CHR 0xB2, CHR 0xD0, CHR 0xBB, CHR 0xD1, CHR 0x8F,
     CHR 0xD1, CHR 0x8E, CHR 0x20, CHR 0xD0, CHR 0xBF, CHR 0xD0, CHR 0xB8, CHR 0xD1,
     CHR 0x81, CHR 0xD1, CHR 0x8C, CHR 0xD0, CHR 0xBC, CHR 0xD0, CHR 0xBE, CHR 0x2E,
     CHR 0x2E, CHR 0x2E]"

text \<open>The wording that precedes a transport error (line 249).\<close>

definition pfx_send_error :: string where
  "pfx_send_error =
    [CHR 0xD0, CHR 0x9E, CHR 0xD1, CHR 0x88, CHR 0xD0, CHR 0xB8, CHR 0xD0, CHR 0xB1,
     CHR 0xD0, CHR 0xBA, CHR 0xD0, CHR 0xB0, CHR 0x20, CHR 0xD0, CHR 0xBF, CHR 0xD1,
     CHR 0x80, CHR 0xD0, CHR 0xB8, CHR 0x20, CHR 0xD0, CHR 0xBE, CHR 0xD1, CHR 0x82,
     CHR 0xD0, CHR 0xBF, CHR 0xD1, CHR 0x80, CHR 0xD0, CHR 0xB0, CHR 0xD0, CHR 0xB2,
     CHR 0xD0, CHR 0xBA, CHR 0xD0, CHR 0xB5, CHR 0x20, CHR 0xD0, CHR 0xBF, CHR 0xD0,
     CHR 0xB8, CHR 0xD1, CHR 0x81, CHR 0xD1, CHR 0x8C, CHR 0xD0, CHR 0xBC, CHR 0xD0,
     CHR 0xB0, CHR 0x3A, CHR 0x20]"

text \<open>The wording that precedes a provider error (line 253).\<close>

definition pfx_api_error :: string where
  "pfx_api_error =
    [CHR 0xD0, CHR 0x9E, CHR 0xD1, CHR 0x88, CHR 0xD0, CHR 0xB8, CHR 0xD0, CHR 0xB1,
     CHR 0xD0, CHR 0xBA, CHR 0xD0, CHR 0xB0, CHR 0x20, CHR 0x41, CHR 0x50, CHR 0x49,
     CHR 0x20, CHR 0x55, CHR 0x6E, CHR 0x69, CHR 0x73, CHR 0x65, CHR 0x6E, CHR 0x64,
     CHR 0x65, CHR 0x72, CHR 0x3A, CHR 0x20]"

text \<open>The wording that precedes the first identifier on success (line 262).\<close>

definition pfx_sent_id :: string where
  "pfx_sent_id =
    [CHR 0xD0, CHR 0x9F, CHR 0xD0, CHR 0xB8, CHR 0xD1, CHR 0x81, CHR 0xD1, CHR 0x8C,
     CHR 0xD0, CHR 0xBC, CHR 0xD0, CHR 0xBE, CHR 0x20, CHR 0xD1, CHR 0x83, CHR 0xD1,
     CHR 0x81, CHR 0xD0, CHR 0xBF, CHR 0xD0, CHR 0xB5, CHR 0xD1, CHR 0x88, CHR 0xD0,
     CHR 0xBD, CHR 0xD0, CHR 0xBE, CHR 0x20, CHR 0xD0, CHR 0xBE, CHR 0xD1, CHR 0x82,
     CHR 0xD0, CHR 0xBF, CHR 0xD1, CHR 0x80, CHR 0xD0, CHR 0xB0, CHR 0xD0, CHR 0xB2,
     CHR 0xD0, CHR 0xBB, CHR 0xD0, CHR 0xB5, CHR 0xD0, CHR 0xBD, CHR 0xD0, CHR 0xBE,
     CHR 0x2C, CHR 0x20, CHR 0x49, CHR 0x44, CHR 0x3A, CHR 0x20]"

text \<open>The generic success wording (line 268).\<close>

definition msg_sent_generic :: string where
  "msg_sent_generic =
    [CHR 0xD0, CHR 0x9F, CHR 0xD0, CHR 0xB8, CHR 0xD1, CHR 0x81, CHR 0xD1, CHR 0x8C,
     CHR 0xD0, CHR 0xBC, CHR 0xD0, CHR 0xBE, CHR 0x20, CHR 0xD1, CHR 0x83, CHR 0xD1,
     CHR 0x81, CHR 0xD0, CHR 0xBF, CHR 0xD0, CHR 0xB5, CHR 0xD1, CHR 0x88, CHR 0xD0,
     CHR 0xBD, CHR 0xD0, CHR 0xBE, CHR 0x20, CHR 0xD0, CHR 0xBE, CHR 0xD1, CHR 0x82,
     CHR 0xD0, CHR 0xBF, CHR 0xD1, CHR 0x80, CHR 0xD0, CHR 0xB0, CHR 0xD0, CHR 0xB2,
     CHR 0xD0, CHR 0xBB, CHR 0xD0, CHR 0xB5, CHR 0xD0, CHR 0xBD, CHR 0xD0, CHR 0xBE,
     CHR 0x21]"

text \<open>The invitation appended to every final message (line 276); it starts with a line feed.\<close>

definition msg_invitation :: string where
  "msg_invitation =
    [CHR 0x0A, CHR 0xD0, CHR 0xA5, CHR 0xD0, CHR 0xBE, CHR 0xD1, CHR 0x82, CHR 0xD0,
     CHR 0xB8, CHR 0xD1, CHR 0x82, CHR 0xD0, CHR 0xB5, CHR 0x20, CHR 0xD0, CHR 0xBE,
     CHR 0xD1, CHR 0x82, CHR 0xD0, CHR 0xBF, CHR 0xD1, CHR 0x80, CHR 0xD0, CHR 0xB0,
     CHR 0xD0, CHR 0xB2, CHR 0xD0, CHR 0xB8, CHR 0xD1, CHR 0x82, CHR 0xD1, CHR 0x8C,
     CHR 0x20, CHR 0xD0, CHR 0xB5, CHR 0xD1, CHR 0x89, CHR 0xD1, CHR 0x91, CHR 0x20,
     CHR 0xD0, CHR 0xBE, CHR 0xD0, CHR 0xB4, CHR 0xD0, CHR 0xBD, CHR 0xD0, CHR 0xBE,
     CHR 0x20, CHR 0xD0, CHR 0xBF, CHR 0xD0, CHR 0xB8, CHR 0xD1, CHR 0x81, CHR 0xD1,
     CHR 0x8C, CHR 0xD0, CHR 0xBC, CHR 0xD0, CHR 0xBE, CHR 0x3F, CHR 0x20, CHR 0xD0,
     CHR 0x9D, CHR 0xD0, CHR 0xB0, CHR 0xD0, CHR 0xB6, CHR 0xD0, CHR 0xBC, CHR 0xD0,
     CHR 0xB8, CHR 0xD1, CHR 0x82, CHR 0xD0, CHR 0xB5, CHR 0x20, CHR 0x27, CHR 0xD0,
     CHR 0x9D, CHR 0xD0, CHR 0xBE, CHR 0xD0, CHR 0xB2, CHR 0xD0, CHR 0xBE, CHR 0xD0,
     CHR 0xB5, CHR 0x20, CHR 0xD0, CHR 0x9F, CHR 0xD0, CHR 0xB8, CHR 0xD1, CHR 0x81,
     CHR 0xD1, CHR 0x8C, CHR 0xD0, CHR 0xBC, CHR 0xD0, CHR 0xBE, CHR 0x27, CHR 0x2E]"

text \<open>The wrapper of a failed HTTP request (line 98).\<close>

definition pfx_http_error :: string where
  "pfx_http_error =
    [CHR 0xD0, CHR 0xBE, CHR 0xD1, CHR 0x88, CHR 0xD0, CHR 0xB8, CHR 0xD0, CHR 0xB1,
     CHR 0xD0, CHR 0xBA, CHR 0xD0, CHR 0xB0, CHR 0x20, CHR 0x48, CHR 0x54, CHR 0x54,
     CHR 0x50, CHR 0x20, CHR 0xD0, CHR 0xB7, CHR 0xD0, CHR 0xB0, CHR 0xD0, CHR 0xBF,
     CHR 0xD1, CHR 0x80, CHR 0xD0, CHR 0xBE, CHR 0xD1, CHR 0x81, CHR 0xD0, CHR 0xB0,
     CHR 0x3A, CHR 0x20]"

text \<open>The wrapper of a failed decoding of the response (line 108).\<close>

definition pfx_decode_error :: string where
  "pfx_decode_error =
    [CHR 0xD0, CHR 0xBE, CHR 0xD1, CHR 0x88, CHR 0xD0, CHR 0xB8, CHR 0xD0, CHR 0xB1,
     CHR 0xD0, CHR 0xBA, CHR 0xD0, CHR 0xB0, CHR 0x20, CHR 0xD0, CHR 0xB4, CHR 0xD0,
     CHR 0xB5, CHR 0xD0, CHR 0xBA, CHR 0xD0, CHR 0xBE, CHR 0xD0, CHR 0xB4, CHR 0xD0,
     CHR 0xB8, CHR 0xD1, CHR 0x80, CHR 0xD0, CHR 0xBE, CHR 0xD0, CHR 0xB2, CHR 0xD0,
     CHR 0xB0, CHR 0xD0, CHR 0xBD, CHR 0xD0, CHR 0xB8, CHR 0xD1, CHR 0x8F, CHR 0x20,
     CHR 0xD0, CHR 0xBE, CHR 0xD1, CHR 0x82, CHR 0xD0, CHR 0xB2, CHR 0xD0, CHR 0xB5,
     CHR 0xD1, CHR 0x82, CHR 0xD0, CHR 0xB0, CHR 0x3A, CHR 0x20]"

section \<open>\<^verbatim>\<open>strings.TrimSpace\<close>\<close>

text \<open>
  Line 194 trims the text of every message. \<^verbatim>\<open>strings.TrimSpace\<close> removes the leading
  and then the trailing white-space runes, where white space is what Go's
  \<^verbatim>\<open>unicode.IsSpace\<close> accepts. The table lists the UTF-8 encodings of these runes:
  the six ASCII ones, U+0085, U+00A0, U+1680, U+2000 to U+200A, U+2028, U+2029, U+202F,
  U+205F and U+3000. A byte sequence that is not the canonical encoding of such a rune
  decodes to another rune or to the replacement rune, and is kept.
\<close>

definition space_runes :: "string list" where
  "space_runes =
    [[CHR 0x09], [CHR 0x0A], [CHR 0x0B], [CHR 0x0C], [CHR 0x0D], [CHR 0x20],
     [CHR 0xC2, CHR 0x85], [CHR 0xC2, CHR 0xA0], [CHR 0xE1, CHR 0x9A, CHR 0x80],
     [CHR 0xE2, CHR 0x80, CHR 0x80], [CHR 0xE2, CHR 0x80, CHR 0x81],
     [CHR 0xE2, CHR 0x80, CHR 0x82], [CHR 0xE2, CHR 0x80, CHR 0x83],
     [CHR 0xE2, CHR 0x80, CHR 0x84], [CHR 0xE2, CHR 0x80, CHR 0x85],
     [CHR 0xE2, CHR 0x80, CHR 0x86], [CHR 0xE2, CHR 0x80, CHR 0x87],
     [CHR 0xE2, CHR 0x80, CHR 0x88], [CHR 0xE2, CHR 0x80, CHR 0x89],
     [CHR 0xE2, CHR 0x80, CHR 0x8A], [CHR 0xE2, CHR 0x80, CHR 0xA8],
     [CHR 0xE2, CHR 0x80, CHR 0xA9], [CHR 0xE2, CHR 0x80, CHR 0xAF],
     [CHR 0xE2, CHR 0x81, CHR 0x9F], [CHR 0xE3, CHR 0x80, CHR 0x80]]"

text \<open>
  \<open>strip rs s\<close> removes from the front of \<open>s\<close> every leading occurrence of a sequence
  of the table \<open>rs\<close>, one after the other, until none is left.
\<close>

function strip :: "string list \<Rightarrow> string \<Rightarrow> string" where
  "strip rs s =
     (case List.find (\<lambda>r. r \<noteq> [] \<and> take (length r) s = r) rs of
        None \<Rightarrow> s
      | Some r \<Rightarrow> strip rs (drop (length r) s))"
  by pat_completeness auto
termination
proof (relation "measure (\<lambda>(rs, s). length s)")
  show "wf (measure (\<lambda>(rs, s). length s))" by simp
next
  fix rs :: "string list" and s r :: string
  assume "List.find (\<lambda>r. r \<noteq> [] \<and> take (length r) s = r) rs = Some r"
  then have r: "r \<noteq> []" and t: "take (length r) s = r"
    by (auto simp: find_Some_iff)
  from t have "length (take (length r) s) = length r"
    by simp
  then have "length r \<le> length s"
    by simp
  with r have "length (drop (length r) s) < length s"
    by (cases r) auto
  then show "((rs, drop (length r) s), (rs, s)) \<in> measure (\<lambda>(rs, s). length s)"
    by simp
qed

declare strip.simps [simp del]

definition TrimSpace :: "string \<Rightarrow> string" where
  "TrimSpace s = rev (strip (map rev space_runes) (rev (strip space_runes s)))"

section \<open>Data model\<close>

text \<open>
  Identifiers of users, chats and emails are \<^verbatim>\<open>int64\<close> in the source. The program never
  computes with them: they are compared, used as keys and printed. They are integers
  here; the one place where the range matters, the parsing of an identifier, checks it.
\<close>

type_synonym int64 = int

text \<open>The configuration (lines 24 to 30).\<close>

record Secrets =
  BotToken :: string
  UnisenderAPIKey :: string
  TargetEmail :: string
  SenderEmail :: string
  LogFile :: string

text \<open>
  The conversation record of one user (lines 33 to 38). The phase is a string in the
  source, and the program writes only the four values \<^verbatim>\<open>initial\<close>, \<^verbatim>\<open>await_subject\<close>,
  \<^verbatim>\<open>await_body\<close> and \<^verbatim>\<open>await_sender\<close> into it.
\<close>

record UserState =
  State :: string
  Subject :: string
  Body :: string
  SenderName :: string

text \<open>
  The global \<^verbatim>\<open>states\<close> (line 41) maps a user to a pointer to the record. Every pointer
  is made fresh by \<^verbatim>\<open>&UserState{...}\<close> and is stored under one key only, so two keys
  never share a record and a map to the records themselves behaves the same.
\<close>

type_synonym states = "int64 \<rightharpoonup> UserState"

text \<open>
  What the loop reads of an update of the chat API: the message, which is absent
  (\<^verbatim>\<open>nil\<close>) for an update of another kind, and of a message the sender, the chat and the
  text. A message update always names its sender. The text of a message that is not a
  text message (a photograph, a sticker) is the empty string.
\<close>

record message =
  From_ID :: int64
  From_UserName :: string
  Chat_ID :: int64
  Text :: string

record update =
  Message :: "message option"

text \<open>
  The reply markup attached to an outbound chat message: none, a reply keyboard given by
  its rows of button labels and its one-time flag, or the removal of the keyboard with
  its selective flag.
\<close>

datatype reply_markup =
    NoMarkup
  | ReplyKeyboard "string list list" bool
  | RemoveKeyboard bool

text \<open>The keyboard with the single button (lines 180 to 185).\<close>

definition initialKeyboard :: reply_markup where
  "initialKeyboard = ReplyKeyboard [[NEW_LETTER_BUTTON_TEXT]] False"

text \<open>
  What the program does to the outside world: \<^verbatim>\<open>bot.Send\<close> of a message to a chat, and
  \<^verbatim>\<open>http.PostForm\<close> of a form, a list of keys with their values, to an address.
\<close>

datatype effect =
    SendMessage int64 string reply_markup
  | PostForm string "(string \<times> string list) list"

fun is_chat :: "effect \<Rightarrow> bool" where
  "is_chat (SendMessage c t k) = True"
| "is_chat (PostForm u d) = False"

definition chat_messages :: "effect list \<Rightarrow> effect list" where
  "chat_messages es = filter is_chat es"

definition email_requests :: "effect list \<Rightarrow> effect list" where
  "email_requests es = filter (\<lambda>e. \<not> is_chat e) es"

section \<open>Decoding of the provider's response\<close>

text \<open>
  The source decodes the response with Go's \<^verbatim>\<open>encoding/json\<close>. The embedding starts
  from the JSON document the body holds, as a tree: a number keeps its literal as the
  document writes it, a string is already unescaped, an object keeps its members in
  order, duplicates included.
\<close>

datatype json =
    JNull
  | JBool bool
  | JNumber string
  | JString string
  | JArray "json list"
  | JObject "(string \<times> json) list"

text \<open>
  What \<^verbatim>\<open>http.PostForm\<close> and the decoder can meet: no response at all, a body that does
  not start with a JSON document (each with the text of Go's error), or a document.
\<close>

datatype http_result =
    ConnectionError string
  | UndecodableBody string
  | JsonBody json

type_synonym transport = "string \<Rightarrow> (string \<times> string list) list \<Rightarrow> http_result"

text \<open>The response as the source declares it (lines 44 to 47); the raw result is the
  tree of the member's value, and \<open>None\<close> when no member set it.\<close>

record UnisenderResponse =
  Result :: "json option"
  Error :: string

definition zero_response :: UnisenderResponse where
  "zero_response = \<lparr>Result = None, Error = []\<rparr>"

text \<open>The name \<^verbatim>\<open>encoding/json\<close> gives a JSON value in a type error.\<close>

fun json_kind :: "json \<Rightarrow> string" where
  "json_kind JNull = ''null''"
| "json_kind (JBool b) = ''bool''"
| "json_kind (JNumber n) = ''number''"
| "json_kind (JString s) = ''string''"
| "json_kind (JArray vs) = ''array''"
| "json_kind (JObject kvs) = ''object''"

definition type_error :: "string \<Rightarrow> string \<Rightarrow> string" where
  "type_error what target = ''json: cannot unmarshal '' @ what @ '' into '' @ target"

text \<open>
  A member's key selects the field whose JSON name it equals, case folded. Folding maps
  an ASCII letter to its capital (Go subtracts 32 from a small letter, which clears the
  bit of value 32); the only other rune that folds to a letter of
  \<^verbatim>\<open>result\<close> or \<^verbatim>\<open>error\<close> is U+017F, the long s (bytes C5 BF), which folds to S.
\<close>

fun long_s :: "string \<Rightarrow> string" where
  "long_s (a # b # cs) =
     (if a = CHR 0xC5 \<and> b = CHR 0xBF then CHR ''S'' # long_s cs else a # long_s (b # cs))"
| "long_s cs = cs"

definition upper :: "char \<Rightarrow> char" where
  "upper c =
     (if 97 \<le> (of_char c :: nat) \<and> (of_char c :: nat) \<le> 122
      then (case c of Char b0 b1 b2 b3 b4 b5 b6 b7 \<Rightarrow> Char b0 b1 b2 b3 b4 False b6 b7)
      else c)"

definition fold_name :: "string \<Rightarrow> string" where
  "fold_name key = map upper (long_s key)"

datatype field = FResult | FError

definition field_of :: "string \<Rightarrow> field option" where
  "field_of key =
     (if fold_name key = ''RESULT'' then Some FResult
      else if fold_name key = ''ERROR'' then Some FError
      else None)"

text \<open>
  The decoder keeps the first type error it meets and goes on; it reports that error
  at the end.
\<close>

definition save_error :: "string option \<Rightarrow> string \<Rightarrow> string option" where
  "save_error saved e = (case saved of None \<Rightarrow> Some e | Some e0 \<Rightarrow> Some e0)"

text \<open>
  One member of the object. The raw result takes any value as it is. The error string
  takes a string, is left as it is by \<^verbatim>\<open>null\<close>, and any other value is a type error.
  A member that names no field is skipped.
\<close>

fun store_member ::
  "UnisenderResponse \<times> string option \<Rightarrow> string \<times> json \<Rightarrow> UnisenderResponse \<times> string option"
where
  "store_member (r, saved) (key, v) =
     (case field_of key of
        None \<Rightarrow> (r, saved)
      | Some FResult \<Rightarrow> (r\<lparr>Result := Some v\<rparr>, saved)
      | Some FError \<Rightarrow>
          (case v of
             JString s \<Rightarrow> (r\<lparr>Error := s\<rparr>, saved)
           | JNull \<Rightarrow> (r, saved)
           | _ \<Rightarrow>
             (r, save_error saved
                   (type_error (json_kind v)
                      ''Go struct field UnisenderResponse.error of type string''))))"

text \<open>
  \<^verbatim>\<open>Decode(&result)\<close> into the zero response (line 103): an object is decoded member
  by member, \<^verbatim>\<open>null\<close> leaves the response as it is, any other document is a type error.
\<close>

definition decode_response :: "json \<Rightarrow> string + UnisenderResponse" where
  "decode_response j =
     (case j of
        JObject kvs \<Rightarrow>
          (case foldl store_member (zero_response, None) kvs of
             (r, None) \<Rightarrow> Inr r
           | (r, Some e) \<Rightarrow> Inl e)
      | JNull \<Rightarrow> Inr zero_response
      | _ \<Rightarrow> Inl (type_error (json_kind j) ''Go value of type main.UnisenderResponse''))"

text \<open>
  \<^verbatim>\<open>strconv.ParseInt(s, 10, 64)\<close>, which decodes a number into an \<^verbatim>\<open>int64\<close>: an
  optional sign, then decimal digits only, and a value within the 64 bits.
\<close>

definition is_digit :: "char \<Rightarrow> bool" where
  "is_digit c \<longleftrightarrow> 48 \<le> (of_char c :: nat) \<and> (of_char c :: nat) \<le> 57"

definition digits_value :: "string \<Rightarrow> int" where
  "digits_value ds = foldl (\<lambda>acc c. 10 * acc + (int (of_char c) - 48)) 0 ds"

definition ParseInt :: "string \<Rightarrow> int64 option" where
  "ParseInt s =
     (let neg = (take 1 s = ''-'');
          ds = (if take 1 s = ''-'' \<or> take 1 s = ''+'' then drop 1 s else s);
          v = (if neg then - digits_value ds else digits_value ds)
      in if ds = [] \<or> \<not> list_all is_digit ds then None
         else if v < - (2 ^ 63) \<or> 2 ^ 63 \<le> v then None
         else Some v)"

text \<open>
  One element of the array, decoded into an \<^verbatim>\<open>int64\<close>: a number that
  \<^verbatim>\<open>ParseInt\<close> accepts gives its value, \<^verbatim>\<open>null\<close> leaves the zero, and everything else
  leaves the zero and is a type error.
\<close>

fun store_id :: "int64 list \<times> string option \<Rightarrow> json \<Rightarrow> int64 list \<times> string option" where
  "store_id (ids, saved) v =
     (case v of
        JNumber n \<Rightarrow>
          (case ParseInt n of
             Some i \<Rightarrow> (ids @ [i], saved)
           | None \<Rightarrow>
             (ids @ [0], save_error saved
                (type_error (''number '' @ n) ''Go value of type int64'')))
      | JNull \<Rightarrow> (ids @ [0], saved)
      | _ \<Rightarrow>
        (ids @ [0], save_error saved (type_error (json_kind v) ''Go value of type int64'')))"

text \<open>
  \<^verbatim>\<open>json.Unmarshal(result.Result, &emailIDs)\<close> (line 258). A raw result that was never
  set is empty input, which is an error; \<^verbatim>\<open>null\<close> leaves the slice empty; an array is
  decoded element by element; any other value is a type error. The caller reads the
  slice only when there is no error.
\<close>

definition unmarshal_ids :: "json option \<Rightarrow> string + int64 list" where
  "unmarshal_ids raw =
     (case raw of
        None \<Rightarrow> Inl ''unexpected end of JSON input''
      | Some (JArray vs) \<Rightarrow>
          (case foldl store_id ([], None) vs of
             (ids, None) \<Rightarrow> Inr ids
           | (ids, Some e) \<Rightarrow> Inl e)
      | Some JNull \<Rightarrow> Inr []
      | Some v \<Rightarrow> Inl (type_error (json_kind v) ''Go value of type []int64''))"

section \<open>Mailer\<close>

text \<open>The address of the provider's send endpoint (line 79).\<close>

definition apiURL :: string where
  "apiURL = ''https://api.unisender.com/ru/api/sendEmail''"

text \<open>The form of one request (lines 81 to 91).\<close>

definition form_data ::
  "string \<Rightarrow> string \<Rightarrow> string \<Rightarrow> string \<Rightarrow> string \<Rightarrow> string \<Rightarrow> (string \<times> string list) list"
where
  "form_data apiKey targetEmail senderEmail subject body senderName =
     [(''format'', [''json'']),
      (''api_key'', [apiKey]),
      (''sender_name'', [senderName]),
      (''sender_email'', [senderEmail]),
      (''email'', [targetEmail]),
      (''subject'', [subject]),
      (''body'', [body]),
      (''list_id'', [''1'']),
      (''error_checking'', [''1''])]"

text \<open>
  \<^verbatim>\<open>SendEmailViaUnisender\<close> (lines 78 to 115). The transport \<open>post\<close> stands for the
  network and the provider: it gives what one \<^verbatim>\<open>http.PostForm\<close> meets. The function
  posts exactly once and returns the request it made together with Go's pair of a
  response and an error, as a sum: \<open>Inl\<close> is the error's text.
\<close>

definition SendEmailViaUnisender ::
  "transport \<Rightarrow> string \<Rightarrow> string \<Rightarrow> string \<Rightarrow> string \<Rightarrow> string \<Rightarrow> string
     \<Rightarrow> effect \<times> (string + UnisenderResponse)"
where
  "SendEmailViaUnisender post apiKey targetEmail senderEmail subject body senderName =
     (let data = form_data apiKey targetEmail senderEmail subject body senderName in
      (PostForm apiURL data,
       (case post apiURL data of
          ConnectionError e \<Rightarrow> Inl (pfx_http_error @ e)
        | UndecodableBody e \<Rightarrow> Inl (pfx_decode_error @ e)
        | JsonBody j \<Rightarrow>
            (case decode_response j of
               Inl e \<Rightarrow> Inl (pfx_decode_error @ e)
             | Inr result \<Rightarrow> Inr result))))"

text \<open>
  The four ways the caller reads the result (lines 247 to 270), named as the design names
  them: the error of the call, the provider's own error string, a first identifier, and
  no identifier although the provider reported no error.
\<close>

datatype EmailSendOutcome =
    Success int64
  | ProviderError string
  | TransportError string
  | AmbiguousSuccess

definition outcome :: "string + UnisenderResponse \<Rightarrow> EmailSendOutcome" where
  "outcome res =
     (case res of
        Inl err \<Rightarrow> TransportError err
      | Inr result \<Rightarrow>
          if Error result \<noteq> [] then ProviderError (Error result)
          else (case unmarshal_ids (Result result) of
                  Inr (i # ids) \<Rightarrow> Success i
                | _ \<Rightarrow> AmbiguousSuccess))"

text \<open>\<^verbatim>\<open>%d\<close> of an \<^verbatim>\<open>int64\<close>: a minus sign if negative, then the decimal digits.\<close>

fun digits :: "nat \<Rightarrow> string" where
  "digits n =
     (if n < 10 then [''0123456789'' ! n]
      else digits (n div 10) @ [''0123456789'' ! (n mod 10)])"

declare digits.simps [simp del]

definition format_d :: "int64 \<Rightarrow> string" where
  "format_d i = (if i < 0 then CHR ''-'' # digits (nat (- i)) else digits (nat i))"

text \<open>The text each branch assigns to \<^verbatim>\<open>finalMsgText\<close> (lines 249, 253, 262, 268).\<close>

fun finalMsgText :: "EmailSendOutcome \<Rightarrow> string" where
  "finalMsgText (TransportError err) = pfx_send_error @ err"
| "finalMsgText (ProviderError e) = pfx_api_error @ e"
| "finalMsgText (Success i) = pfx_sent_id @ format_d i"
| "finalMsgText AmbiguousSuccess = msg_sent_generic"

section \<open>Conversation engine\<close>

text \<open>The record \<^verbatim>\<open>&UserState{State: "initial"}\<close> (lines 201 and 213).\<close>

definition initial_state :: UserState where
  "initial_state = \<lparr>State = ''initial'', Subject = [], Body = [], SenderName = []\<rparr>"

text \<open>
  The await-sender case of the switch (lines 240 to 278), for the record \<open>state\<close> of user
  \<open>userID\<close> and the trimmed text.
\<close>

definition await_sender ::
  "Secrets \<Rightarrow> transport \<Rightarrow> states \<Rightarrow> int64 \<Rightarrow> int64 \<Rightarrow> UserState \<Rightarrow> string
     \<Rightarrow> states \<times> effect list"
where
  "await_sender secrets post sts userID chatID state text =
     (let state1 = state\<lparr>SenderName := text\<rparr>;
          sent = SendEmailViaUnisender post (UnisenderAPIKey secrets) (TargetEmail secrets)
                   (SenderEmail secrets) (Subject state1) (Body state1) (SenderName state1);
          final = finalMsgText (outcome (snd sent))
      in (sts(userID \<mapsto> state1\<lparr>State := ''initial''\<rparr>),
          [SendMessage chatID msg_sending NoMarkup,
           fst sent,
           SendMessage chatID (final @ msg_invitation) initialKeyboard]))"

text \<open>
  The body of the loop (lines 187 to 280) for one update: the map of records before, the
  map after and the effects in the order the program makes them.
\<close>

definition handle_update ::
  "Secrets \<Rightarrow> transport \<Rightarrow> states \<Rightarrow> update \<Rightarrow> states \<times> effect list"
where
  "handle_update secrets post sts u =
     (case Message u of
        None \<Rightarrow> (sts, [])
      | Some m \<Rightarrow>
          let userID = From_ID m; chatID = Chat_ID m; text = TrimSpace (Text m) in
          if text = ''/start'' then
            (sts(userID \<mapsto> initial_state),
             [SendMessage chatID msg_greeting initialKeyboard])
          else
            (case sts userID of
               None \<Rightarrow>
                 (sts(userID \<mapsto> initial_state),
                  [SendMessage chatID msg_reprompt initialKeyboard])
             | Some state \<Rightarrow>
                 if State state = ''initial'' \<and> text \<noteq> NEW_LETTER_BUTTON_TEXT then
                   (sts, [SendMessage chatID msg_reprompt initialKeyboard])
                 else if State state = ''initial'' then
                   (sts(userID \<mapsto> state\<lparr>State := ''await_subject''\<rparr>),
                    [SendMessage chatID msg_enter_subject (RemoveKeyboard False)])
                 else if State state = ''await_subject'' then
                   (sts(userID \<mapsto> state\<lparr>Subject := text, State := ''await_body''\<rparr>),
                    [SendMessage chatID msg_enter_body NoMarkup])
                 else if State state = ''await_body'' then
                   (sts(userID \<mapsto> state\<lparr>Body := text, State := ''await_sender''\<rparr>),
                    [SendMessage chatID msg_enter_sender NoMarkup])
                 else if State state = ''await_sender'' then
                   await_sender secrets post sts userID chatID state text
                 else (sts, [])))"

text \<open>
  The loop over the channel of updates (line 187), on the updates that have arrived: they
  are handled one at a time, in order.
\<close>

fun run :: "Secrets \<Rightarrow> transport \<Rightarrow> states \<Rightarrow> update list \<Rightarrow> states \<times> effect list" where
  "run secrets post sts [] = (sts, [])"
| "run secrets post sts (u # us) =
     (let step = handle_update secrets post sts u;
          rest = run secrets post (fst step) us
      in (fst rest, snd step @ snd rest))"

section \<open>Example inputs\<close>

text \<open>A configuration, a user 7 writing in chat 9, and a record with stale fields.\<close>

definition ex_secrets :: Secrets where
  "ex_secrets =
     \<lparr>BotToken = ''token'', UnisenderAPIKey = ''key'', TargetEmail = ''to@example.org'',
      SenderEmail = ''from@example.org'', LogFile = ''bot_errors.log''\<rparr>"

definition ex_message :: "string \<Rightarrow> message" where
  "ex_message t = \<lparr>From_ID = 7, From_UserName = ''user'', Chat_ID = 9, Text = t\<rparr>"

definition ex_update :: "string \<Rightarrow> update" where
  "ex_update t = \<lparr>Message = Some (ex_message t)\<rparr>"

definition ex_record :: "string \<Rightarrow> UserState" where
  "ex_record phase =
     \<lparr>State = phase, Subject = ''old subject'', Body = ''old body'',
      SenderName = ''old name''\<rparr>"

text \<open>A provider that answers every request with the same document.\<close>

definition ex_answer :: "json \<Rightarrow> transport" where
  "ex_answer j = (\<lambda>url data. JsonBody j)"

text \<open>A network that lets every request fail.\<close>

definition ex_no_connection :: transport where
  "ex_no_connection = (\<lambda>url data. ConnectionError ''dial tcp: i/o timeout'')"

text \<open>The document \<^verbatim>\<open>{"result":[123,456],"error":""}\<close>: the result is an array.\<close>

definition ex_ids :: json where
  "ex_ids =
     JObject [(''result'', JArray [JNumber ''123'', JNumber ''456'']), (''error'', JString [])]"

text \<open>The document \<^verbatim>\<open>{"result":"[123,456]","error":""}\<close>: the result is a string.\<close>

definition ex_quoted :: json where
  "ex_quoted = JObject [(''result'', JString ''[123,456]''), (''error'', JString [])]"

text \<open>The document \<^verbatim>\<open>{"error":"invalid_api_key"}\<close>.\<close>

definition ex_api_error :: json where
  "ex_api_error = JObject [(''error'', JString ''invalid_api_key'')]"

text \<open>The document \<^verbatim>\<open>{"result":"{}","error":""}\<close>.\<close>

definition ex_braces :: json where
  "ex_braces = JObject [(''result'', JString ''{}''), (''error'', JString [])]"

section \<open>The branches of the loop body\<close>

lemma TrimSpace_Nil: "TrimSpace [] = []"
  by (simp add: TrimSpace_def strip.simps space_runes_def)

text \<open>Trimming only removes a prefix and a suffix: what is left is a piece of the text.\<close>

lemma strip_suffix: "\<exists>a. s = a @ strip rs s"
proof (induction rs s rule: strip.induct)
  case (1 rs s)
  show ?case
  proof (cases "List.find (\<lambda>r. r \<noteq> [] \<and> take (length r) s = r) rs")
    case None
    then show ?thesis by (simp add: strip.simps [of rs s])
  next
    case (Some r)
    with "1" obtain a where a: "drop (length r) s = a @ strip rs (drop (length r) s)"
      by blast
    have "s = take (length r) s @ drop (length r) s" by simp
    with a have "s = (take (length r) s @ a) @ strip rs (drop (length r) s)"
      by (metis append.assoc)
    moreover from Some have "strip rs s = strip rs (drop (length r) s)"
      by (simp add: strip.simps [of rs s])
    ultimately have "s = (take (length r) s @ a) @ strip rs s"
      by simp
    then show ?thesis ..
  qed
qed

lemma TrimSpace_infix: "\<exists>a b. s = a @ TrimSpace s @ b"
proof -
  obtain a where a: "s = a @ strip space_runes s"
    using strip_suffix by blast
  obtain c where c: "rev (strip space_runes s)
      = c @ strip (map rev space_runes) (rev (strip space_runes s))"
    using strip_suffix by blast
  from c have "strip space_runes s = TrimSpace s @ rev c"
    by (metis TrimSpace_def rev_append rev_rev_ident)
  with a have "s = a @ TrimSpace s @ rev c" by simp
  then show ?thesis by blast
qed

lemma TrimSpace_start: "TrimSpace ''/start'' = ''/start''"
  by (simp add: TrimSpace_def strip.simps space_runes_def)

lemma TrimSpace_label: "TrimSpace NEW_LETTER_BUTTON_TEXT = NEW_LETTER_BUTTON_TEXT"
  by (simp add: TrimSpace_def strip.simps space_runes_def NEW_LETTER_BUTTON_TEXT_def)

lemma label_not_start: "NEW_LETTER_BUTTON_TEXT \<noteq> ''/start''"
  by (simp add: NEW_LETTER_BUTTON_TEXT_def)

text \<open>One equation for each path through the loop body, in the order of the source.\<close>

lemma no_message_branch:
  "Message u = None \<Longrightarrow> handle_update secrets post sts u = (sts, [])"
  by (simp add: handle_update_def)

lemma start_branch:
  "Message u = Some m \<Longrightarrow> TrimSpace (Text m) = ''/start'' \<Longrightarrow>
   handle_update secrets post sts u =
     (sts(From_ID m \<mapsto> initial_state),
      [SendMessage (Chat_ID m) msg_greeting initialKeyboard])"
  by (simp add: handle_update_def)

lemma unknown_branch:
  "Message u = Some m \<Longrightarrow> TrimSpace (Text m) \<noteq> ''/start'' \<Longrightarrow>
   sts (From_ID m) = None \<Longrightarrow>
   handle_update secrets post sts u =
     (sts(From_ID m \<mapsto> initial_state),
      [SendMessage (Chat_ID m) msg_reprompt initialKeyboard])"
  by (simp add: handle_update_def)

lemma stray_branch:
  "Message u = Some m \<Longrightarrow> TrimSpace (Text m) \<noteq> ''/start'' \<Longrightarrow>
   sts (From_ID m) = Some r \<Longrightarrow> State r = ''initial'' \<Longrightarrow>
   TrimSpace (Text m) \<noteq> NEW_LETTER_BUTTON_TEXT \<Longrightarrow>
   handle_update secrets post sts u =
     (sts, [SendMessage (Chat_ID m) msg_reprompt initialKeyboard])"
  by (simp add: handle_update_def)

lemma label_branch:
  "Message u = Some m \<Longrightarrow> sts (From_ID m) = Some r \<Longrightarrow> State r = ''initial'' \<Longrightarrow>
   TrimSpace (Text m) = NEW_LETTER_BUTTON_TEXT \<Longrightarrow>
   handle_update secrets post sts u =
     (sts(From_ID m \<mapsto> r\<lparr>State := ''await_subject''\<rparr>),
      [SendMessage (Chat_ID m) msg_enter_subject (RemoveKeyboard False)])"
  by (simp add: handle_update_def label_not_start)

lemma subject_branch:
  "Message u = Some m \<Longrightarrow> TrimSpace (Text m) \<noteq> ''/start'' \<Longrightarrow>
   sts (From_ID m) = Some r \<Longrightarrow> State r = ''await_subject'' \<Longrightarrow>
   handle_update secrets post sts u =
     (sts(From_ID m \<mapsto> r\<lparr>Subject := TrimSpace (Text m), State := ''await_body''\<rparr>),
      [SendMessage (Chat_ID m) msg_enter_body NoMarkup])"
  by (simp add: handle_update_def)

lemma body_branch:
  "Message u = Some m \<Longrightarrow> TrimSpace (Text m) \<noteq> ''/start'' \<Longrightarrow>
   sts (From_ID m) = Some r \<Longrightarrow> State r = ''await_body'' \<Longrightarrow>
   handle_update secrets post sts u =
     (sts(From_ID m \<mapsto> r\<lparr>Body := TrimSpace (Text m), State := ''await_sender''\<rparr>),
      [SendMessage (Chat_ID m) msg_enter_sender NoMarkup])"
  by (simp add: handle_update_def)

lemma sender_branch:
  "Message u = Some m \<Longrightarrow> TrimSpace (Text m) \<noteq> ''/start'' \<Longrightarrow>
   sts (From_ID m) = Some r \<Longrightarrow> State r = ''await_sender'' \<Longrightarrow>
   handle_update secrets post sts u =
     (sts(From_ID m \<mapsto> r\<lparr>SenderName := TrimSpace (Text m), State := ''initial''\<rparr>),
      [SendMessage (Chat_ID m) msg_sending NoMarkup,
       PostForm apiURL
         (form_data (UnisenderAPIKey secrets) (TargetEmail secrets) (SenderEmail secrets)
            (Subject r) (Body r) (TrimSpace (Text m))),
       SendMessage (Chat_ID m)
         (finalMsgText
            (outcome
               (snd (SendEmailViaUnisender post (UnisenderAPIKey secrets)
                       (TargetEmail secrets) (SenderEmail secrets)
                       (Subject r) (Body r) (TrimSpace (Text m)))))
          @ msg_invitation)
         initialKeyboard])"
  by (simp add: handle_update_def await_sender_def Let_def SendEmailViaUnisender_def)

lemma ex_update_message: "Message (ex_update t) = Some (ex_message t)"
  by (simp add: ex_update_def)

lemma ex_message_fields:
  "From_ID (ex_message t) = 7" "Chat_ID (ex_message t) = 9" "Text (ex_message t) = t"
  by (simp_all add: ex_message_def)

section \<open>The start command\<close>

text \<open>
  Claim C4. Whatever the map of records holds for the user (no record, or a record in
  any phase with any fields), a message whose text is the start command leaves the
  user's record at phase \<^verbatim>\<open>initial\<close>, makes exactly one effect, the greeting with the
  keyboard of the single button, and so posts no email request.
\<close>

theorem start_resets:
  assumes "Message u = Some m" and "TrimSpace (Text m) = ''/start''"
  shows "map_option State (fst (handle_update secrets post sts u) (From_ID m))
           = Some ''initial''
       \<and> snd (handle_update secrets post sts u)
           = [SendMessage (Chat_ID m) msg_greeting
                (ReplyKeyboard [[NEW_LETTER_BUTTON_TEXT]] False)]
       \<and> email_requests (snd (handle_update secrets post sts u)) = []"
  using assms
  by (simp add: start_branch initial_state_def initialKeyboard_def email_requests_def)

theorem start_resets_witness:
  "Message (ex_update ''/start'') = Some (ex_message ''/start'')
   \<and> TrimSpace (Text (ex_message ''/start'')) = ''/start''
   \<and> map_option State
        (fst (handle_update ex_secrets (ex_answer ex_ids) [7 \<mapsto> ex_record ''await_body'']
               (ex_update ''/start'')) 7) = Some ''initial''
   \<and> snd (handle_update ex_secrets (ex_answer ex_ids) [7 \<mapsto> ex_record ''await_body'']
            (ex_update ''/start''))
        = [SendMessage 9 msg_greeting (ReplyKeyboard [[NEW_LETTER_BUTTON_TEXT]] False)]
   \<and> email_requests
        (snd (handle_update ex_secrets (ex_answer ex_ids) [7 \<mapsto> ex_record ''await_body'']
               (ex_update ''/start''))) = []"
proof -
  have h1: "Message (ex_update ''/start'') = Some (ex_message ''/start'')"
    by (rule ex_update_message)
  have h2: "TrimSpace (Text (ex_message ''/start'')) = ''/start''"
    by (simp add: ex_message_fields TrimSpace_start)
  show ?thesis
    using h1 h2
      start_resets [OF h1 h2, of ex_secrets "ex_answer ex_ids"
        "[7 \<mapsto> ex_record ''await_body'']"]
    by (simp add: ex_message_fields email_requests_def)
qed

text \<open>
  Claim C10. The start command is recognised on the trimmed text, before the record of
  the user is read: in every phase, the three awaiting phases included, such a message
  replaces the record by a fresh one at phase \<^verbatim>\<open>initial\<close> whose subject, body and
  sender name are empty. The text of the message is not empty, so it is stored in no
  field. The only effect is the greeting; no email request is posted.
\<close>

theorem start_precedes_dispatch:
  assumes "Message u = Some m" and "TrimSpace (Text m) = ''/start''"
  shows "fst (handle_update secrets post sts u) (From_ID m)
           = Some \<lparr>State = ''initial'', Subject = [], Body = [], SenderName = []\<rparr>
       \<and> Text m \<noteq> []
       \<and> snd (handle_update secrets post sts u)
           = [SendMessage (Chat_ID m) msg_greeting initialKeyboard]
       \<and> email_requests (snd (handle_update secrets post sts u)) = []"
proof -
  from assms(2) have "Text m \<noteq> []"
    using TrimSpace_Nil by auto
  with assms show ?thesis
    by (simp add: start_branch initial_state_def email_requests_def)
qed

text \<open>The command with a leading blank, sent by a user who is awaiting the sender name.\<close>

theorem start_precedes_dispatch_witness:
  "Message (ex_update '' /start'') = Some (ex_message '' /start'')
   \<and> TrimSpace (Text (ex_message '' /start'')) = ''/start''
   \<and> fst (handle_update ex_secrets (ex_answer ex_ids) [7 \<mapsto> ex_record ''await_sender'']
            (ex_update '' /start'')) 7
        = Some \<lparr>State = ''initial'', Subject = [], Body = [], SenderName = []\<rparr>
   \<and> email_requests
        (snd (handle_update ex_secrets (ex_answer ex_ids) [7 \<mapsto> ex_record ''await_sender'']
               (ex_update '' /start''))) = []"
proof -
  have h1: "Message (ex_update '' /start'') = Some (ex_message '' /start'')"
    by (rule ex_update_message)
  have h2: "TrimSpace (Text (ex_message '' /start'')) = ''/start''"
    by (simp add: ex_message_fields TrimSpace_def strip.simps space_runes_def)
  show ?thesis
    using h1 h2
      start_precedes_dispatch [OF h1 h2, of ex_secrets "ex_answer ex_ids"
        "[7 \<mapsto> ex_record ''await_sender'']"]
    by (simp add: ex_message_fields email_requests_def)
qed

section \<open>The button\<close>

text \<open>
  Claim C9. When a user whose record is at phase \<^verbatim>\<open>initial\<close> sends the label of the
  button, the new record is the old one with the phase set to \<^verbatim>\<open>await_subject\<close>:
  subject, body and sender name keep the values they had, stale or not.
\<close>

theorem label_changes_only_phase:
  assumes "Message u = Some m" and "sts (From_ID m) = Some r" and "State r = ''initial''"
    and "TrimSpace (Text m) = NEW_LETTER_BUTTON_TEXT"
  shows "fst (handle_update secrets post sts u) (From_ID m)
           = Some (r\<lparr>State := ''await_subject''\<rparr>)
       \<and> map_option Subject (fst (handle_update secrets post sts u) (From_ID m))
           = Some (Subject r)
       \<and> map_option Body (fst (handle_update secrets post sts u) (From_ID m))
           = Some (Body r)
       \<and> map_option SenderName (fst (handle_update secrets post sts u) (From_ID m))
           = Some (SenderName r)"
  using assms by (simp add: label_branch)

theorem label_changes_only_phase_witness:
  "Message (ex_update NEW_LETTER_BUTTON_TEXT) = Some (ex_message NEW_LETTER_BUTTON_TEXT)
   \<and> [7 \<mapsto> ex_record ''initial''] (From_ID (ex_message NEW_LETTER_BUTTON_TEXT))
        = Some (ex_record ''initial'')
   \<and> State (ex_record ''initial'') = ''initial''
   \<and> TrimSpace (Text (ex_message NEW_LETTER_BUTTON_TEXT)) = NEW_LETTER_BUTTON_TEXT
   \<and> fst (handle_update ex_secrets (ex_answer ex_ids) [7 \<mapsto> ex_record ''initial'']
            (ex_update NEW_LETTER_BUTTON_TEXT)) 7
        = Some \<lparr>State = ''await_subject'', Subject = ''old subject'', Body = ''old body'',
                 SenderName = ''old name''\<rparr>"
proof -
  have h1: "Message (ex_update NEW_LETTER_BUTTON_TEXT) = Some (ex_message NEW_LETTER_BUTTON_TEXT)"
    by (rule ex_update_message)
  have h2: "[7 \<mapsto> ex_record ''initial''] (From_ID (ex_message NEW_LETTER_BUTTON_TEXT))
        = Some (ex_record ''initial'')"
    by (simp add: ex_message_fields)
  have h3: "State (ex_record ''initial'') = ''initial''"
    by (simp add: ex_record_def)
  have h4: "TrimSpace (Text (ex_message NEW_LETTER_BUTTON_TEXT)) = NEW_LETTER_BUTTON_TEXT"
    by (simp add: ex_message_fields TrimSpace_label)
  show ?thesis
    using h1 h2 h3 h4
      label_changes_only_phase [where sts = "[7 \<mapsto> ex_record ''initial'']"
        and secrets = ex_secrets and post = "ex_answer ex_ids", OF h1 h2 h3 h4]
    by (simp add: ex_message_fields ex_record_def)
qed

section \<open>Updates without a message, and messages without text\<close>

text \<open>
  Claim C8 as stated fails. A message that is not a text message carries the empty text,
  and the loop handles it like any other text: sent by a user who is awaiting the
  subject, it stores the empty subject, moves the record to \<^verbatim>\<open>await_body\<close> and sends
  the prompt for the body.
\<close>

theorem empty_text_processed:
  "Text (ex_message []) = []
   \<and> fst (handle_update ex_secrets (ex_answer ex_ids) [7 \<mapsto> ex_record ''await_subject'']
            (ex_update [])) 7
        = Some \<lparr>State = ''await_body'', Subject = [], Body = ''old body'',
                 SenderName = ''old name''\<rparr>
   \<and> snd (handle_update ex_secrets (ex_answer ex_ids) [7 \<mapsto> ex_record ''await_subject'']
            (ex_update []))
        = [SendMessage 9 msg_enter_body NoMarkup]
   \<and> handle_update ex_secrets (ex_answer ex_ids) [7 \<mapsto> ex_record ''await_subject'']
        (ex_update [])
      \<noteq> ([7 \<mapsto> ex_record ''await_subject''], [])"
proof -
  have "handle_update ex_secrets (ex_answer ex_ids) [7 \<mapsto> ex_record ''await_subject'']
          (ex_update [])
        = ([7 \<mapsto> ex_record ''await_subject'']
             (From_ID (ex_message []) \<mapsto>
                (ex_record ''await_subject'')
                  \<lparr>Subject := TrimSpace (Text (ex_message [])), State := ''await_body''\<rparr>),
           [SendMessage (Chat_ID (ex_message [])) msg_enter_body NoMarkup])"
    by (rule subject_branch)
       (simp_all add: ex_update_message ex_message_fields TrimSpace_Nil ex_record_def)
  then show ?thesis
    by (simp add: ex_message_fields TrimSpace_Nil ex_record_def)
qed

text \<open>
  Claim C8, amended. An update that carries no message at all (line 188) leaves the
  record of every user as it is and makes no effect: no chat message and no request.
\<close>

theorem no_message_ignored:
  assumes "Message u = None"
  shows "handle_update secrets post sts u = (sts, [])"
  using assms by (rule no_message_branch)

theorem no_message_ignored_witness:
  "Message \<lparr>Message = None\<rparr> = None
   \<and> handle_update ex_secrets (ex_answer ex_ids) [7 \<mapsto> ex_record ''await_subject'']
        \<lparr>Message = None\<rparr>
      = ([7 \<mapsto> ex_record ''await_subject''], [])"
proof -
  have h: "Message \<lparr>Message = None\<rparr> = None" by simp
  show ?thesis
    using h no_message_ignored [OF h, of ex_secrets "ex_answer ex_ids"
      "[7 \<mapsto> ex_record ''await_subject'']"]
    by simp
qed

section \<open>Stray input\<close>

text \<open>
  Claim C5 as stated fails, because the loop compares the trimmed text and not the text
  as it arrived. The label of the button with a blank in front is neither the start
  command nor the label; sent by a user at phase \<^verbatim>\<open>initial\<close>, it is trimmed to the
  label, the phase advances to \<^verbatim>\<open>await_subject\<close> and the reply is the prompt for the
  subject, not the re-prompt.
\<close>

theorem padded_label_advances:
  "Text (ex_message (CHR 0x20 # NEW_LETTER_BUTTON_TEXT)) \<noteq> ''/start''
   \<and> Text (ex_message (CHR 0x20 # NEW_LETTER_BUTTON_TEXT)) \<noteq> NEW_LETTER_BUTTON_TEXT
   \<and> map_option State
        (fst (handle_update ex_secrets (ex_answer ex_ids) [7 \<mapsto> ex_record ''initial'']
               (ex_update (CHR 0x20 # NEW_LETTER_BUTTON_TEXT))) 7) = Some ''await_subject''
   \<and> snd (handle_update ex_secrets (ex_answer ex_ids) [7 \<mapsto> ex_record ''initial'']
            (ex_update (CHR 0x20 # NEW_LETTER_BUTTON_TEXT)))
        = [SendMessage 9 msg_enter_subject (RemoveKeyboard False)]
   \<and> snd (handle_update ex_secrets (ex_answer ex_ids) [7 \<mapsto> ex_record ''initial'']
            (ex_update (CHR 0x20 # NEW_LETTER_BUTTON_TEXT)))
        \<noteq> [SendMessage 9 msg_reprompt initialKeyboard]"
proof -
  have t: "TrimSpace (CHR 0x20 # NEW_LETTER_BUTTON_TEXT) = NEW_LETTER_BUTTON_TEXT"
    by (simp add: TrimSpace_def strip.simps space_runes_def NEW_LETTER_BUTTON_TEXT_def)
  have "handle_update ex_secrets (ex_answer ex_ids) [7 \<mapsto> ex_record ''initial'']
          (ex_update (CHR 0x20 # NEW_LETTER_BUTTON_TEXT))
        = ([7 \<mapsto> ex_record ''initial'']
             (From_ID (ex_message (CHR 0x20 # NEW_LETTER_BUTTON_TEXT)) \<mapsto>
                (ex_record ''initial'')\<lparr>State := ''await_subject''\<rparr>),
           [SendMessage (Chat_ID (ex_message (CHR 0x20 # NEW_LETTER_BUTTON_TEXT)))
              msg_enter_subject (RemoveKeyboard False)])"
    by (rule label_branch) (simp_all add: ex_update_message ex_message_fields t ex_record_def)
  then show ?thesis
    by (simp add: ex_message_fields ex_record_def NEW_LETTER_BUTTON_TEXT_def
          initialKeyboard_def)
qed

text \<open>
  Claim C5, amended. Let the trimmed text of a message not be the start command. If the
  user has no record, or has a record at phase \<^verbatim>\<open>initial\<close> and the trimmed text is
  not the label of the button, then the only effect is the re-prompt with the keyboard,
  an existing map of records is left as it is, a missing record is created at phase
  \<^verbatim>\<open>initial\<close>, the phase of the user is \<^verbatim>\<open>initial\<close> afterwards, and no email request
  is posted.
\<close>

theorem stray_input_reprompts:
  assumes "Message u = Some m" and "TrimSpace (Text m) \<noteq> ''/start''"
    and "sts (From_ID m) = None
         \<or> (\<exists>r. sts (From_ID m) = Some r \<and> State r = ''initial''
                \<and> TrimSpace (Text m) \<noteq> NEW_LETTER_BUTTON_TEXT)"
  shows "snd (handle_update secrets post sts u)
           = [SendMessage (Chat_ID m) msg_reprompt initialKeyboard]
       \<and> fst (handle_update secrets post sts u)
           = (case sts (From_ID m) of
                None \<Rightarrow> sts(From_ID m \<mapsto> initial_state)
              | Some r \<Rightarrow> sts)
       \<and> map_option State (fst (handle_update secrets post sts u) (From_ID m))
           = Some ''initial''
       \<and> email_requests (snd (handle_update secrets post sts u)) = []"
proof (cases "sts (From_ID m)")
  case None
  with assms(1,2) show ?thesis
    by (simp add: unknown_branch initial_state_def email_requests_def)
next
  case (Some r)
  with assms(3) have "State r = ''initial''"
    and "TrimSpace (Text m) \<noteq> NEW_LETTER_BUTTON_TEXT"
    by auto
  with assms(1,2) Some show ?thesis
    by (simp add: stray_branch email_requests_def)
qed

text \<open>The text \<^verbatim>\<open>foo\<close> from a user without a record and from a user at \<^verbatim>\<open>initial\<close>.\<close>

theorem stray_input_reprompts_witness:
  "Message (ex_update ''foo'') = Some (ex_message ''foo'')
   \<and> TrimSpace (Text (ex_message ''foo'')) \<noteq> ''/start''
   \<and> TrimSpace (Text (ex_message ''foo'')) \<noteq> NEW_LETTER_BUTTON_TEXT
   \<and> handle_update ex_secrets (ex_answer ex_ids) Map.empty (ex_update ''foo'')
       = ([7 \<mapsto> initial_state], [SendMessage 9 msg_reprompt initialKeyboard])
   \<and> handle_update ex_secrets (ex_answer ex_ids) [7 \<mapsto> ex_record ''initial'']
        (ex_update ''foo'')
       = ([7 \<mapsto> ex_record ''initial''], [SendMessage 9 msg_reprompt initialKeyboard])"
proof -
  have t: "TrimSpace ''foo'' = ''foo''"
    by (simp add: TrimSpace_def strip.simps space_runes_def)
  have h1: "Message (ex_update ''foo'') = Some (ex_message ''foo'')"
    by (rule ex_update_message)
  have h2: "TrimSpace (Text (ex_message ''foo'')) \<noteq> ''/start''"
    by (simp add: ex_message_fields t)
  have h3: "TrimSpace (Text (ex_message ''foo'')) \<noteq> NEW_LETTER_BUTTON_TEXT"
    by (simp add: ex_message_fields t NEW_LETTER_BUTTON_TEXT_def)
  have a: "Map.empty (From_ID (ex_message ''foo'')) = None
         \<or> (\<exists>r. Map.empty (From_ID (ex_message ''foo'')) = Some r \<and> State r = ''initial''
                \<and> TrimSpace (Text (ex_message ''foo'')) \<noteq> NEW_LETTER_BUTTON_TEXT)"
    by simp
  have b: "[7 \<mapsto> ex_record ''initial''] (From_ID (ex_message ''foo'')) = None
         \<or> (\<exists>r. [7 \<mapsto> ex_record ''initial''] (From_ID (ex_message ''foo'')) = Some r
                \<and> State r = ''initial''
                \<and> TrimSpace (Text (ex_message ''foo'')) \<noteq> NEW_LETTER_BUTTON_TEXT)"
    using h3 by (simp add: ex_message_fields ex_record_def)
  show ?thesis
    using h1 h2 h3
      stray_input_reprompts [where sts = Map.empty and secrets = ex_secrets
        and post = "ex_answer ex_ids", OF h1 h2 a]
      stray_input_reprompts [where sts = "[7 \<mapsto> ex_record ''initial'']"
        and secrets = ex_secrets and post = "ex_answer ex_ids", OF h1 h2 b]
    by (simp add: ex_message_fields prod_eq_iff)
qed

section \<open>The three texts\<close>

text \<open>
  Claim C6 as stated fails: the field does not hold the text exactly as received. A
  subject that arrives with a blank in front is stored without the blank.
\<close>

theorem padded_subject_not_verbatim:
  "map_option Subject
     (fst (handle_update ex_secrets (ex_answer ex_ids) [7 \<mapsto> ex_record ''await_subject'']
            (ex_update '' Hi'')) 7) = Some ''Hi''
   \<and> map_option Subject
     (fst (handle_update ex_secrets (ex_answer ex_ids) [7 \<mapsto> ex_record ''await_subject'']
            (ex_update '' Hi'')) 7) \<noteq> Some (Text (ex_message '' Hi''))"
proof -
  have t: "TrimSpace '' Hi'' = ''Hi''"
    by (simp add: TrimSpace_def strip.simps space_runes_def)
  have "handle_update ex_secrets (ex_answer ex_ids) [7 \<mapsto> ex_record ''await_subject'']
          (ex_update '' Hi'')
        = ([7 \<mapsto> ex_record ''await_subject'']
             (From_ID (ex_message '' Hi'') \<mapsto>
                (ex_record ''await_subject'')
                  \<lparr>Subject := TrimSpace (Text (ex_message '' Hi'')), State := ''await_body''\<rparr>),
           [SendMessage (Chat_ID (ex_message '' Hi'')) msg_enter_body NoMarkup])"
    by (rule subject_branch)
       (simp_all add: ex_update_message ex_message_fields t ex_record_def)
  then show ?thesis
    by (simp add: ex_message_fields t)
qed

text \<open>
  Claim C6, amended. A message that reaches the switch (its trimmed text is not the start
  command) in phase \<^verbatim>\<open>await_subject\<close>, \<^verbatim>\<open>await_body\<close> or \<^verbatim>\<open>await_sender\<close> stores
  the trimmed text in the subject, the body or the sender name. Nothing else is checked
  or changed: the trimmed text is a piece of the text as received, what is cut off lies
  before and after it.
\<close>

theorem fields_store_trimmed_text:
  assumes "Message u = Some m" and "TrimSpace (Text m) \<noteq> ''/start''"
    and "sts (From_ID m) = Some r"
  shows "(State r = ''await_subject'' \<longrightarrow>
            map_option Subject (fst (handle_update secrets post sts u) (From_ID m))
              = Some (TrimSpace (Text m)))
       \<and> (State r = ''await_body'' \<longrightarrow>
            map_option Body (fst (handle_update secrets post sts u) (From_ID m))
              = Some (TrimSpace (Text m)))
       \<and> (State r = ''await_sender'' \<longrightarrow>
            map_option SenderName (fst (handle_update secrets post sts u) (From_ID m))
              = Some (TrimSpace (Text m)))
       \<and> (\<exists>a b. Text m = a @ TrimSpace (Text m) @ b)"
  using assms TrimSpace_infix [of "Text m"]
  by (simp add: subject_branch body_branch sender_branch)

theorem fields_store_trimmed_text_witness:
  "map_option Subject
     (fst (handle_update ex_secrets (ex_answer ex_ids) [7 \<mapsto> ex_record ''await_subject'']
            (ex_update '' Hi there '')) 7) = Some ''Hi there''
   \<and> map_option Body
     (fst (handle_update ex_secrets (ex_answer ex_ids) [7 \<mapsto> ex_record ''await_body'']
            (ex_update '' Hi there '')) 7) = Some ''Hi there''
   \<and> map_option SenderName
     (fst (handle_update ex_secrets (ex_answer ex_ids) [7 \<mapsto> ex_record ''await_sender'']
            (ex_update '' Hi there '')) 7) = Some ''Hi there''"
proof -
  have t: "TrimSpace '' Hi there '' = ''Hi there''"
    by (simp add: TrimSpace_def strip.simps space_runes_def)
  have h1: "Message (ex_update '' Hi there '') = Some (ex_message '' Hi there '')"
    by (rule ex_update_message)
  have h2: "TrimSpace (Text (ex_message '' Hi there '')) \<noteq> ''/start''"
    by (simp add: ex_message_fields t)
  have h3: "[7 \<mapsto> ex_record p] (From_ID (ex_message '' Hi there '')) = Some (ex_record p)"
    for p by (simp add: ex_message_fields)
  show ?thesis
    using
      fields_store_trimmed_text [where sts = "[7 \<mapsto> ex_record ''await_subject'']"
        and secrets = ex_secrets and post = "ex_answer ex_ids", OF h1 h2 h3]
      fields_store_trimmed_text [where sts = "[7 \<mapsto> ex_record ''await_body'']"
        and secrets = ex_secrets and post = "ex_answer ex_ids", OF h1 h2 h3]
      fields_store_trimmed_text [where sts = "[7 \<mapsto> ex_record ''await_sender'']"
        and secrets = ex_secrets and post = "ex_answer ex_ids", OF h1 h2 h3]
    by (simp add: ex_message_fields ex_record_def t)
qed

section \<open>The outcome of a send\<close>

text \<open>What the decoders make of the example documents.\<close>

lemma decode_ex_ids:
  "decode_response ex_ids
     = Inr \<lparr>Result = Some (JArray [JNumber ''123'', JNumber ''456'']), Error = []\<rparr>"
  by (simp add: ex_ids_def decode_response_def zero_response_def field_of_def fold_name_def
        upper_def)

lemma decode_ex_quoted:
  "decode_response ex_quoted = Inr \<lparr>Result = Some (JString ''[123,456]''), Error = []\<rparr>"
  by (simp add: ex_quoted_def decode_response_def zero_response_def field_of_def fold_name_def
        upper_def)

lemma decode_ex_api_error:
  "decode_response ex_api_error = Inr \<lparr>Result = None, Error = ''invalid_api_key''\<rparr>"
  by (simp add: ex_api_error_def decode_response_def zero_response_def field_of_def
        fold_name_def upper_def)

lemma decode_ex_braces:
  "decode_response ex_braces = Inr \<lparr>Result = Some (JString ''{}''), Error = []\<rparr>"
  by (simp add: ex_braces_def decode_response_def zero_response_def field_of_def fold_name_def
        upper_def)

lemma unmarshal_123_456:
  "unmarshal_ids (Some (JArray [JNumber ''123'', JNumber ''456''])) = Inr [123, 456]"
  by (simp add: unmarshal_ids_def ParseInt_def is_digit_def digits_value_def)

lemma unmarshal_string:
  "unmarshal_ids (Some (JString s))
     = Inl (type_error ''string'' ''Go value of type []int64'')"
  by (simp add: unmarshal_ids_def)

lemma send_result:
  "snd (SendEmailViaUnisender post apiKey targetEmail senderEmail subject body senderName)
     = (case post apiURL (form_data apiKey targetEmail senderEmail subject body senderName) of
          ConnectionError e \<Rightarrow> Inl (pfx_http_error @ e)
        | UndecodableBody e \<Rightarrow> Inl (pfx_decode_error @ e)
        | JsonBody j \<Rightarrow>
            (case decode_response j of
               Inl e \<Rightarrow> Inl (pfx_decode_error @ e)
             | Inr result \<Rightarrow> Inr result))"
  by (simp add: SendEmailViaUnisender_def Let_def)

lemma outcome_ex_ids:
  "outcome (snd (SendEmailViaUnisender (ex_answer ex_ids) k t s a b c)) = Success 123"
  by (simp add: send_result ex_answer_def decode_ex_ids outcome_def unmarshal_123_456)

lemma outcome_ex_quoted:
  "outcome (snd (SendEmailViaUnisender (ex_answer ex_quoted) k t s a b c)) = AmbiguousSuccess"
  by (simp add: send_result ex_answer_def decode_ex_quoted outcome_def unmarshal_string)

lemma outcome_ex_api_error:
  "outcome (snd (SendEmailViaUnisender (ex_answer ex_api_error) k t s a b c))
     = ProviderError ''invalid_api_key''"
  by (simp add: send_result ex_answer_def decode_ex_api_error outcome_def)

lemma outcome_ex_braces:
  "outcome (snd (SendEmailViaUnisender (ex_answer ex_braces) k t s a b c)) = AmbiguousSuccess"
  by (simp add: send_result ex_answer_def decode_ex_braces outcome_def unmarshal_string)

text \<open>
  Claim C2 as stated fails at its first example. In the document
  \<^verbatim>\<open>{"result":"[123,456]","error":""}\<close> the result is a JSON string, and the source
  decodes the raw result into a slice of \<^verbatim>\<open>int64\<close> (line 258), which a string is not:
  the decoding fails, there is no top-level error, and the outcome is the ambiguous
  success, not the success with identifier 123.
\<close>

theorem quoted_ids_are_ambiguous:
  "outcome (snd (SendEmailViaUnisender (ex_answer ex_quoted) ''key'' ''to@example.org''
                   ''from@example.org'' ''Hello'' ''World'' ''Alice'')) = AmbiguousSuccess
   \<and> outcome (snd (SendEmailViaUnisender (ex_answer ex_quoted) ''key'' ''to@example.org''
                   ''from@example.org'' ''Hello'' ''World'' ''Alice'')) \<noteq> Success 123"
  by (simp add: outcome_ex_quoted)

text \<open>
  Claim C2, amended. Let \<open>answer\<close> be what the one request of a send meets. A failed
  connection and a body that cannot be decoded (no JSON document, or a document that does
  not decode into the response) give a transport error. Otherwise a non-empty top-level
  error string gives the provider error with that string. Otherwise a raw result that
  decodes into a non-empty slice of identifiers gives the success with the first one.
  Otherwise the outcome is the ambiguous success. In particular the document
  \<^verbatim>\<open>{"result":[123,456],"error":""}\<close>, whose result is an array, gives the success
  with 123; \<^verbatim>\<open>{"error":"invalid_api_key"}\<close> gives the provider error; and both
  \<^verbatim>\<open>{"result":"{}","error":""}\<close> and \<^verbatim>\<open>{"result":"[123,456]","error":""}\<close>, whose
  results are strings, give the ambiguous success.
\<close>

theorem mailer_outcome:
  fixes out :: EmailSendOutcome
  assumes "post apiURL (form_data apiKey targetEmail senderEmail subject body senderName)
             = answer"
  defines "out \<equiv> outcome (snd (SendEmailViaUnisender post apiKey targetEmail senderEmail
                                   subject body senderName))"
  shows "(\<forall>e. answer = ConnectionError e \<longrightarrow> out = TransportError (pfx_http_error @ e))
       \<and> (\<forall>e. answer = UndecodableBody e \<longrightarrow> out = TransportError (pfx_decode_error @ e))
       \<and> (\<forall>j e. answer = JsonBody j \<and> decode_response j = Inl e
              \<longrightarrow> out = TransportError (pfx_decode_error @ e))
       \<and> (\<forall>j r. answer = JsonBody j \<and> decode_response j = Inr r \<and> Error r \<noteq> []
              \<longrightarrow> out = ProviderError (Error r))
       \<and> (\<forall>j r i ids. answer = JsonBody j \<and> decode_response j = Inr r \<and> Error r = []
                \<and> unmarshal_ids (Result r) = Inr (i # ids)
              \<longrightarrow> out = Success i)
       \<and> (\<forall>j r. answer = JsonBody j \<and> decode_response j = Inr r \<and> Error r = []
                \<and> (\<forall>i ids. unmarshal_ids (Result r) \<noteq> Inr (i # ids))
              \<longrightarrow> out = AmbiguousSuccess)
       \<and> outcome (snd (SendEmailViaUnisender (ex_answer ex_ids) apiKey targetEmail senderEmail
                         subject body senderName)) = Success 123
       \<and> outcome (snd (SendEmailViaUnisender (ex_answer ex_api_error) apiKey targetEmail
                         senderEmail subject body senderName))
           = ProviderError ''invalid_api_key''
       \<and> outcome (snd (SendEmailViaUnisender (ex_answer ex_braces) apiKey targetEmail
                         senderEmail subject body senderName)) = AmbiguousSuccess
       \<and> outcome (snd (SendEmailViaUnisender (ex_answer ex_quoted) apiKey targetEmail
                         senderEmail subject body senderName)) = AmbiguousSuccess"
proof -
  have res: "snd (SendEmailViaUnisender post apiKey targetEmail senderEmail subject body
                    senderName)
      = (case answer of
           ConnectionError e \<Rightarrow> Inl (pfx_http_error @ e)
         | UndecodableBody e \<Rightarrow> Inl (pfx_decode_error @ e)
         | JsonBody j \<Rightarrow>
             (case decode_response j of
                Inl e \<Rightarrow> Inl (pfx_decode_error @ e)
              | Inr result \<Rightarrow> Inr result))"
    using assms(1) by (simp add: send_result)
  have g1: "\<forall>e. answer = ConnectionError e \<longrightarrow> out = TransportError (pfx_http_error @ e)"
    by (simp add: out_def res outcome_def)
  have g2: "\<forall>e. answer = UndecodableBody e \<longrightarrow> out = TransportError (pfx_decode_error @ e)"
    by (simp add: out_def res outcome_def)
  have g3: "\<forall>j e. answer = JsonBody j \<and> decode_response j = Inl e
              \<longrightarrow> out = TransportError (pfx_decode_error @ e)"
    by (simp add: out_def res outcome_def)
  have g4: "\<forall>j r. answer = JsonBody j \<and> decode_response j = Inr r \<and> Error r \<noteq> []
              \<longrightarrow> out = ProviderError (Error r)"
    by (simp add: out_def res outcome_def)
  have g5: "\<forall>j r i ids. answer = JsonBody j \<and> decode_response j = Inr r \<and> Error r = []
                \<and> unmarshal_ids (Result r) = Inr (i # ids)
              \<longrightarrow> out = Success i"
    by (simp add: out_def res outcome_def)
  have g6: "\<forall>j r. answer = JsonBody j \<and> decode_response j = Inr r \<and> Error r = []
                \<and> (\<forall>i ids. unmarshal_ids (Result r) \<noteq> Inr (i # ids))
              \<longrightarrow> out = AmbiguousSuccess"
    by (auto simp: out_def res outcome_def split: sum.splits list.splits)
  show ?thesis
    by (intro conjI g1 g2 g3 g4 g5 g6 outcome_ex_ids outcome_ex_api_error outcome_ex_braces
          outcome_ex_quoted)
qed

text \<open>One answer for each of the six cases.\<close>

theorem mailer_outcome_witness:
  "outcome (snd (SendEmailViaUnisender (\<lambda>url data. ConnectionError ''dial tcp: timeout'')
                   ''key'' ''to@example.org'' ''from@example.org'' ''Hello'' ''World'' ''Alice''))
     = TransportError (pfx_http_error @ ''dial tcp: timeout'')
   \<and> outcome (snd (SendEmailViaUnisender (\<lambda>url data. UndecodableBody ''unexpected EOF'')
                   ''key'' ''to@example.org'' ''from@example.org'' ''Hello'' ''World'' ''Alice''))
     = TransportError (pfx_decode_error @ ''unexpected EOF'')
   \<and> outcome (snd (SendEmailViaUnisender (ex_answer (JArray []))
                   ''key'' ''to@example.org'' ''from@example.org'' ''Hello'' ''World'' ''Alice''))
     = TransportError (pfx_decode_error
         @ ''json: cannot unmarshal array into Go value of type main.UnisenderResponse'')
   \<and> outcome (snd (SendEmailViaUnisender (ex_answer ex_api_error)
                   ''key'' ''to@example.org'' ''from@example.org'' ''Hello'' ''World'' ''Alice''))
     = ProviderError ''invalid_api_key''
   \<and> outcome (snd (SendEmailViaUnisender (ex_answer ex_ids)
                   ''key'' ''to@example.org'' ''from@example.org'' ''Hello'' ''World'' ''Alice''))
     = Success 123
   \<and> outcome (snd (SendEmailViaUnisender (ex_answer ex_braces)
                   ''key'' ''to@example.org'' ''from@example.org'' ''Hello'' ''World'' ''Alice''))
     = AmbiguousSuccess"
proof -
  note m = mailer_outcome [where apiKey = "''key''" and targetEmail = "''to@example.org''"
      and senderEmail = "''from@example.org''" and subject = "''Hello''" and body = "''World''"
      and senderName = "''Alice''"]
  have d: "decode_response (JArray [])
      = Inl ''json: cannot unmarshal array into Go value of type main.UnisenderResponse''"
    by (simp add: decode_response_def type_error_def)
  have u: "\<forall>i ids. unmarshal_ids (Some (JString ''{}'')) \<noteq> Inr (i # ids)"
    by (simp add: unmarshal_string)
  have "outcome (snd (SendEmailViaUnisender (\<lambda>url data. ConnectionError ''dial tcp: timeout'')
                   ''key'' ''to@example.org'' ''from@example.org'' ''Hello'' ''World'' ''Alice''))
     = TransportError (pfx_http_error @ ''dial tcp: timeout'')"
    using m [where post = "\<lambda>url data. ConnectionError ''dial tcp: timeout''", OF refl]
    by blast
  moreover
  have "outcome (snd (SendEmailViaUnisender (\<lambda>url data. UndecodableBody ''unexpected EOF'')
                   ''key'' ''to@example.org'' ''from@example.org'' ''Hello'' ''World'' ''Alice''))
     = TransportError (pfx_decode_error @ ''unexpected EOF'')"
    using m [where post = "\<lambda>url data. UndecodableBody ''unexpected EOF''", OF refl]
    by blast
  moreover
  have "outcome (snd (SendEmailViaUnisender (ex_answer (JArray []))
                   ''key'' ''to@example.org'' ''from@example.org'' ''Hello'' ''World'' ''Alice''))
     = TransportError (pfx_decode_error
         @ ''json: cannot unmarshal array into Go value of type main.UnisenderResponse'')"
    using m [where post = "ex_answer (JArray [])", OF refl] d
    by (simp add: ex_answer_def)
  moreover
  have "outcome (snd (SendEmailViaUnisender (ex_answer ex_api_error)
                   ''key'' ''to@example.org'' ''from@example.org'' ''Hello'' ''World'' ''Alice''))
     = ProviderError ''invalid_api_key''"
    using m [where post = "ex_answer ex_api_error", OF refl] decode_ex_api_error
    by (simp add: ex_answer_def)
  moreover
  have "outcome (snd (SendEmailViaUnisender (ex_answer ex_ids)
                   ''key'' ''to@example.org'' ''from@example.org'' ''Hello'' ''World'' ''Alice''))
     = Success 123"
    using m [where post = "ex_answer ex_ids", OF refl] decode_ex_ids unmarshal_123_456
    by (simp add: ex_answer_def)
  moreover
  have "outcome (snd (SendEmailViaUnisender (ex_answer ex_braces)
                   ''key'' ''to@example.org'' ''from@example.org'' ''Hello'' ''World'' ''Alice''))
     = AmbiguousSuccess"
    using m [where post = "ex_answer ex_braces", OF refl] decode_ex_braces u
    by (simp add: ex_answer_def)
  ultimately show ?thesis by blast
qed

lemma format_d_123: "format_d 123 = ''123''"
  by (simp add: format_d_def digits.simps)

lemma outcome_ex_no_connection:
  "outcome (snd (SendEmailViaUnisender ex_no_connection k t s a b c))
     = TransportError (pfx_http_error @ ''dial tcp: i/o timeout'')"
  by (simp add: send_result ex_no_connection_def outcome_def)

section \<open>The send attempt and the number of chat messages\<close>

text \<open>
  Claim C3. A message that reaches the await-sender case makes a send attempt. Whatever
  the transport answers, and so whatever the outcome is, the record of the user is at phase
  \<^verbatim>\<open>initial\<close> afterwards, and the chat messages are exactly two: the interim
  acknowledgment, and a final message that consists of the outcome's wording and the
  invitation and carries the keyboard with the single button; it is the last effect.
  Every other branch (the start command, a user without a record, and the phases
  \<^verbatim>\<open>initial\<close>, \<^verbatim>\<open>await_subject\<close> and \<^verbatim>\<open>await_body\<close>) sends exactly one chat message.
\<close>

theorem chat_messages_per_branch:
  assumes "Message u = Some m"
  shows "(TrimSpace (Text m) \<noteq> ''/start'' \<and> sts (From_ID m) = Some r
          \<and> State r = ''await_sender''
        \<longrightarrow> map_option State (fst (handle_update secrets post sts u) (From_ID m))
              = Some ''initial''
          \<and> chat_messages (snd (handle_update secrets post sts u))
              = [SendMessage (Chat_ID m) msg_sending NoMarkup,
                 SendMessage (Chat_ID m)
                   (finalMsgText
                      (outcome
                         (snd (SendEmailViaUnisender post (UnisenderAPIKey secrets)
                                 (TargetEmail secrets) (SenderEmail secrets)
                                 (Subject r) (Body r) (TrimSpace (Text m)))))
                    @ msg_invitation)
                   (ReplyKeyboard [[NEW_LETTER_BUTTON_TEXT]] False)]
          \<and> last (snd (handle_update secrets post sts u))
              = last (chat_messages (snd (handle_update secrets post sts u))))
       \<and> (TrimSpace (Text m) = ''/start'' \<or> sts (From_ID m) = None
          \<or> (sts (From_ID m) = Some r
              \<and> (State r = ''initial'' \<or> State r = ''await_subject''
                  \<or> State r = ''await_body''))
        \<longrightarrow> length (chat_messages (snd (handle_update secrets post sts u))) = 1)"
proof (intro conjI impI)
  assume a: "TrimSpace (Text m) \<noteq> ''/start'' \<and> sts (From_ID m) = Some r
          \<and> State r = ''await_sender''"
  note b = sender_branch [OF assms, of sts r secrets post]
  from a b show "map_option State (fst (handle_update secrets post sts u) (From_ID m))
      = Some ''initial''"
    by simp
  from a b show "chat_messages (snd (handle_update secrets post sts u))
      = [SendMessage (Chat_ID m) msg_sending NoMarkup,
         SendMessage (Chat_ID m)
           (finalMsgText
              (outcome
                 (snd (SendEmailViaUnisender post (UnisenderAPIKey secrets)
                         (TargetEmail secrets) (SenderEmail secrets)
                         (Subject r) (Body r) (TrimSpace (Text m)))))
            @ msg_invitation)
           (ReplyKeyboard [[NEW_LETTER_BUTTON_TEXT]] False)]"
    by (simp add: chat_messages_def initialKeyboard_def)
  from a b show "last (snd (handle_update secrets post sts u))
      = last (chat_messages (snd (handle_update secrets post sts u)))"
    by (simp add: chat_messages_def)
next
  assume a: "TrimSpace (Text m) = ''/start'' \<or> sts (From_ID m) = None
          \<or> (sts (From_ID m) = Some r
              \<and> (State r = ''initial'' \<or> State r = ''await_subject''
                  \<or> State r = ''await_body''))"
  show "length (chat_messages (snd (handle_update secrets post sts u))) = 1"
  proof (cases "TrimSpace (Text m) = ''/start''")
    case True
    with assms show ?thesis by (simp add: start_branch chat_messages_def)
  next
    case False
    note ns = this
    show ?thesis
    proof (cases "sts (From_ID m)")
      case None
      with assms ns show ?thesis by (simp add: unknown_branch chat_messages_def)
    next
      case (Some r')
      with a ns have r: "r' = r"
        and p: "State r = ''initial'' \<or> State r = ''await_subject'' \<or> State r = ''await_body''"
        by auto
      from p consider (i) "State r = ''initial''" "TrimSpace (Text m) = NEW_LETTER_BUTTON_TEXT"
        | (s) "State r = ''initial''" "TrimSpace (Text m) \<noteq> NEW_LETTER_BUTTON_TEXT"
        | (sub) "State r = ''await_subject''" | (bod) "State r = ''await_body''"
        by blast
      then show ?thesis
      proof cases
        case i
        with assms Some r show ?thesis by (simp add: label_branch chat_messages_def)
      next
        case s
        with assms ns Some r show ?thesis by (simp add: stray_branch chat_messages_def)
      next
        case sub
        with assms ns Some r show ?thesis by (simp add: subject_branch chat_messages_def)
      next
        case bod
        with assms ns Some r show ?thesis by (simp add: body_branch chat_messages_def)
      qed
    qed
  qed
qed

text \<open>
  A send attempt under each of the four outcomes (success, provider error, transport error
  and ambiguous success), and the await-body branch.
\<close>

theorem chat_messages_per_branch_witness:
  "chat_messages
     (snd (handle_update ex_secrets (ex_answer ex_ids) [7 \<mapsto> ex_record ''await_sender'']
            (ex_update ''Alice'')))
     = [SendMessage 9 msg_sending NoMarkup,
        SendMessage 9 (pfx_sent_id @ ''123'' @ msg_invitation)
          (ReplyKeyboard [[NEW_LETTER_BUTTON_TEXT]] False)]
   \<and> chat_messages
     (snd (handle_update ex_secrets (ex_answer ex_api_error)
            [7 \<mapsto> ex_record ''await_sender''] (ex_update ''Alice'')))
     = [SendMessage 9 msg_sending NoMarkup,
        SendMessage 9 (pfx_api_error @ ''invalid_api_key'' @ msg_invitation)
          (ReplyKeyboard [[NEW_LETTER_BUTTON_TEXT]] False)]
   \<and> chat_messages
     (snd (handle_update ex_secrets ex_no_connection [7 \<mapsto> ex_record ''await_sender'']
            (ex_update ''Alice'')))
     = [SendMessage 9 msg_sending NoMarkup,
        SendMessage 9
          (pfx_send_error @ pfx_http_error @ ''dial tcp: i/o timeout'' @ msg_invitation)
          (ReplyKeyboard [[NEW_LETTER_BUTTON_TEXT]] False)]
   \<and> chat_messages
     (snd (handle_update ex_secrets (ex_answer ex_braces) [7 \<mapsto> ex_record ''await_sender'']
            (ex_update ''Alice'')))
     = [SendMessage 9 msg_sending NoMarkup,
        SendMessage 9 (msg_sent_generic @ msg_invitation)
          (ReplyKeyboard [[NEW_LETTER_BUTTON_TEXT]] False)]
   \<and> map_option State
       (fst (handle_update ex_secrets ex_no_connection [7 \<mapsto> ex_record ''await_sender'']
              (ex_update ''Alice'')) 7)
     = Some ''initial''
   \<and> length (chat_messages
       (snd (handle_update ex_secrets (ex_answer ex_ids) [7 \<mapsto> ex_record ''await_body'']
              (ex_update ''World''))))
     = 1"
proof -
  have t: "TrimSpace ''Alice'' = ''Alice''" "TrimSpace ''World'' = ''World''"
    by (simp_all add: TrimSpace_def strip.simps space_runes_def)
  have h: "TrimSpace (Text (ex_message ''Alice'')) \<noteq> ''/start''
      \<and> [7 \<mapsto> ex_record ''await_sender''] (From_ID (ex_message ''Alice''))
          = Some (ex_record ''await_sender'')
      \<and> State (ex_record ''await_sender'') = ''await_sender''"
    by (simp add: ex_message_fields t ex_record_def)
  have k: "[7 \<mapsto> ex_record ''await_body''] (From_ID (ex_message ''World''))
          = Some (ex_record ''await_body'')
      \<and> State (ex_record ''await_body'') = ''await_body''"
    by (simp add: ex_message_fields ex_record_def)
  note sender = chat_messages_per_branch [where u = "ex_update ''Alice''"
      and m = "ex_message ''Alice''" and sts = "[7 \<mapsto> ex_record ''await_sender'']"
      and r = "ex_record ''await_sender''" and secrets = ex_secrets, OF ex_update_message]
  note other = chat_messages_per_branch [where u = "ex_update ''World''"
      and m = "ex_message ''World''" and sts = "[7 \<mapsto> ex_record ''await_body'']"
      and r = "ex_record ''await_body''" and secrets = ex_secrets
      and post = "ex_answer ex_ids", OF ex_update_message]
  show ?thesis
    using h k other
      sender [where post = "ex_answer ex_ids"] sender [where post = "ex_answer ex_api_error"]
      sender [where post = ex_no_connection] sender [where post = "ex_answer ex_braces"]
    by (simp add: ex_message_fields t outcome_ex_ids outcome_ex_api_error
          outcome_ex_no_connection outcome_ex_braces format_d_123)
qed

section \<open>The wording of the outcome\<close>

text \<open>
  Claim C7 as stated fails in its last part: the line for an ambiguous success is not the
  line for an ordinary success. The answer \<^verbatim>\<open>{"result":"{}","error":""}\<close> is an
  ambiguous success and gets the generic wording; the answer
  \<^verbatim>\<open>{"result":[123,456],"error":""}\<close> is a success and gets the wording that ends with
  the identifier 123.
\<close>

theorem ambiguous_wording_differs:
  "outcome (snd (SendEmailViaUnisender (ex_answer ex_braces) ''key'' ''to@example.org''
                   ''from@example.org'' ''Hello'' ''World'' ''Alice'')) = AmbiguousSuccess
   \<and> outcome (snd (SendEmailViaUnisender (ex_answer ex_ids) ''key'' ''to@example.org''
                   ''from@example.org'' ''Hello'' ''World'' ''Alice'')) = Success 123
   \<and> finalMsgText (Success 123) = pfx_sent_id @ ''123''
   \<and> finalMsgText AmbiguousSuccess \<noteq> finalMsgText (Success 123)"
  by (simp add: outcome_ex_braces outcome_ex_ids format_d_123 pfx_sent_id_def
        msg_sent_generic_def)

text \<open>
  Claim C7, amended. The wordings for a transport error, a provider error and a success
  are pairwise distinct, whatever the error texts and the identifier are. The ambiguous
  success has one fixed wording, the generic success text; it differs from the other
  three, and it shares with the success wording the first 48 bytes, the words for "the
  letter was sent successfully", after which the success wording goes on with the
  identifier. Every send attempt shows exactly one such line: of its two chat messages,
  the second is the wording of the outcome followed by the invitation.
\<close>

theorem outcome_wordings:
  "finalMsgText (TransportError d) \<noteq> finalMsgText (ProviderError e)
   \<and> finalMsgText (TransportError d) \<noteq> finalMsgText (Success i)
   \<and> finalMsgText (ProviderError e) \<noteq> finalMsgText (Success i)
   \<and> finalMsgText AmbiguousSuccess = msg_sent_generic
   \<and> finalMsgText AmbiguousSuccess \<noteq> finalMsgText (Success i)
   \<and> finalMsgText AmbiguousSuccess \<noteq> finalMsgText (TransportError d)
   \<and> finalMsgText AmbiguousSuccess \<noteq> finalMsgText (ProviderError e)
   \<and> take 48 (finalMsgText AmbiguousSuccess) = take 48 (finalMsgText (Success i))
   \<and> (Message u = Some m \<and> TrimSpace (Text m) \<noteq> ''/start'' \<and> sts (From_ID m) = Some r
        \<and> State r = ''await_sender''
      \<longrightarrow> chat_messages (snd (handle_update secrets post sts u))
            = [SendMessage (Chat_ID m) msg_sending NoMarkup,
               SendMessage (Chat_ID m)
                 (finalMsgText
                    (outcome
                       (snd (SendEmailViaUnisender post (UnisenderAPIKey secrets)
                               (TargetEmail secrets) (SenderEmail secrets)
                               (Subject r) (Body r) (TrimSpace (Text m)))))
                  @ msg_invitation)
                 initialKeyboard])"
proof -
  have w: "finalMsgText (TransportError d) \<noteq> finalMsgText (ProviderError e)"
    "finalMsgText (TransportError d) \<noteq> finalMsgText (Success i)"
    "finalMsgText (ProviderError e) \<noteq> finalMsgText (Success i)"
    "finalMsgText AmbiguousSuccess \<noteq> finalMsgText (Success i)"
    "finalMsgText AmbiguousSuccess \<noteq> finalMsgText (TransportError d)"
    "finalMsgText AmbiguousSuccess \<noteq> finalMsgText (ProviderError e)"
    "take 48 (finalMsgText AmbiguousSuccess) = take 48 (finalMsgText (Success i))"
    by (simp_all add: pfx_send_error_def pfx_api_error_def pfx_sent_id_def
          msg_sent_generic_def)
  have s: "chat_messages (snd (handle_update secrets post sts u))
            = [SendMessage (Chat_ID m) msg_sending NoMarkup,
               SendMessage (Chat_ID m)
                 (finalMsgText
                    (outcome
                       (snd (SendEmailViaUnisender post (UnisenderAPIKey secrets)
                               (TargetEmail secrets) (SenderEmail secrets)
                               (Subject r) (Body r) (TrimSpace (Text m)))))
                  @ msg_invitation)
                 initialKeyboard]"
    if "Message u = Some m" "TrimSpace (Text m) \<noteq> ''/start''" "sts (From_ID m) = Some r"
      "State r = ''await_sender''"
    using that by (simp add: sender_branch chat_messages_def)
  from w s show ?thesis by simp
qed

theorem outcome_wordings_witness:
  "chat_messages
     (snd (handle_update ex_secrets (ex_answer ex_braces) [7 \<mapsto> ex_record ''await_sender'']
            (ex_update ''Alice'')))
     = [SendMessage 9 msg_sending NoMarkup,
        SendMessage 9 (msg_sent_generic @ msg_invitation) initialKeyboard]
   \<and> chat_messages
     (snd (handle_update ex_secrets (ex_answer ex_ids) [7 \<mapsto> ex_record ''await_sender'']
            (ex_update ''Alice'')))
     = [SendMessage 9 msg_sending NoMarkup,
        SendMessage 9 (pfx_sent_id @ ''123'' @ msg_invitation) initialKeyboard]"
proof -
  have t: "TrimSpace ''Alice'' = ''Alice''"
    by (simp add: TrimSpace_def strip.simps space_runes_def)
  have h: "Message (ex_update ''Alice'') = Some (ex_message ''Alice'')
      \<and> TrimSpace (Text (ex_message ''Alice'')) \<noteq> ''/start''
      \<and> [7 \<mapsto> ex_record ''await_sender''] (From_ID (ex_message ''Alice''))
          = Some (ex_record ''await_sender'')
      \<and> State (ex_record ''await_sender'') = ''await_sender''"
    by (simp add: ex_update_message ex_message_fields t ex_record_def)
  show ?thesis
    using h
      outcome_wordings [where u = "ex_update ''Alice''" and m = "ex_message ''Alice''"
        and sts = "[7 \<mapsto> ex_record ''await_sender'']" and r = "ex_record ''await_sender''"
        and secrets = ex_secrets and post = "ex_answer ex_braces"]
      outcome_wordings [where u = "ex_update ''Alice''" and m = "ex_message ''Alice''"
        and sts = "[7 \<mapsto> ex_record ''await_sender'']" and r = "ex_record ''await_sender''"
        and secrets = ex_secrets and post = "ex_answer ex_ids"]
    by (simp add: ex_message_fields t outcome_ex_braces outcome_ex_ids format_d_123)
qed

section \<open>A full cycle\<close>

lemma email_requests_simps:
  "email_requests [] = []"
  "email_requests (SendMessage c t k # es) = email_requests es"
  "email_requests (PostForm url d # es) = PostForm url d # email_requests es"
  by (simp_all add: email_requests_def)

text \<open>
  Claim C1 as stated fails for two reasons. The fields of the request are the trimmed
  texts, not the texts as supplied: the subject \<^verbatim>\<open>" Hello"\<close> is sent as
  \<^verbatim>\<open>"Hello"\<close>. And a text that is the start command is not a subject: it resets the
  conversation, the two texts after it are stray input, and no request is made at all.
\<close>

theorem full_cycle_counterexample:
  "email_requests
     (snd (run ex_secrets (ex_answer ex_ids) [7 \<mapsto> ex_record ''initial'']
            [ex_update NEW_LETTER_BUTTON_TEXT, ex_update '' Hello'', ex_update ''World'',
             ex_update ''Alice'']))
     = [PostForm apiURL
          (form_data ''key'' ''to@example.org'' ''from@example.org'' ''Hello'' ''World''
             ''Alice'')]
   \<and> email_requests
     (snd (run ex_secrets (ex_answer ex_ids) [7 \<mapsto> ex_record ''initial'']
            [ex_update NEW_LETTER_BUTTON_TEXT, ex_update '' Hello'', ex_update ''World'',
             ex_update ''Alice'']))
     \<noteq> [PostForm apiURL
          (form_data ''key'' ''to@example.org'' ''from@example.org''
             (Text (ex_message '' Hello'')) (Text (ex_message ''World''))
             (Text (ex_message ''Alice'')))]
   \<and> email_requests
     (snd (run ex_secrets (ex_answer ex_ids) [7 \<mapsto> ex_record ''initial'']
            [ex_update NEW_LETTER_BUTTON_TEXT, ex_update ''/start'', ex_update ''World'',
             ex_update ''Alice'']))
     = []"
proof -
  have t: "TrimSpace '' Hello'' = ''Hello''" "TrimSpace ''World'' = ''World''"
    "TrimSpace ''Alice'' = ''Alice''"
    by (simp_all add: TrimSpace_def strip.simps space_runes_def)
  have n: "''World'' \<noteq> NEW_LETTER_BUTTON_TEXT" "''Alice'' \<noteq> NEW_LETTER_BUTTON_TEXT"
    by (simp_all add: NEW_LETTER_BUTTON_TEXT_def)
  have a: "email_requests
     (snd (run ex_secrets (ex_answer ex_ids) [7 \<mapsto> ex_record ''initial'']
            [ex_update NEW_LETTER_BUTTON_TEXT, ex_update '' Hello'', ex_update ''World'',
             ex_update ''Alice'']))
     = [PostForm apiURL
          (form_data ''key'' ''to@example.org'' ''from@example.org'' ''Hello'' ''World''
             ''Alice'')]"
    by (simp add: handle_update_def await_sender_def SendEmailViaUnisender_def Let_def
          ex_update_def ex_message_def ex_record_def ex_secrets_def t TrimSpace_label
          label_not_start email_requests_simps)
  have b: "email_requests
     (snd (run ex_secrets (ex_answer ex_ids) [7 \<mapsto> ex_record ''initial'']
            [ex_update NEW_LETTER_BUTTON_TEXT, ex_update ''/start'', ex_update ''World'',
             ex_update ''Alice'']))
     = []"
    by (simp add: handle_update_def Let_def ex_update_def ex_message_def ex_record_def
          initial_state_def t n TrimSpace_label TrimSpace_start label_not_start
          email_requests_simps)
  from a b show ?thesis
    by (simp add: ex_message_fields form_data_def)
qed

text \<open>
  Claim C1, amended. Let the record of a user be at phase \<^verbatim>\<open>initial\<close>, and let the user
  send four messages: one whose trimmed text is the label of the button, then three
  whose trimmed texts are not the start command. Then exactly one request is posted to
  the provider, its subject, body and sender name are the trimmed texts of the second,
  third and fourth message, the other fields are those of the configuration and the
  fixed ones, and the record of the user is at phase \<^verbatim>\<open>initial\<close> at the end.
\<close>

theorem full_cycle_sends_one_email:
  assumes rec: "sts uid = Some r" "State r = ''initial''"
    and from_user: "From_ID m1 = uid" "From_ID m2 = uid" "From_ID m3 = uid" "From_ID m4 = uid"
    and label: "TrimSpace (Text m1) = NEW_LETTER_BUTTON_TEXT"
    and texts: "TrimSpace (Text m2) \<noteq> ''/start''" "TrimSpace (Text m3) \<noteq> ''/start''"
      "TrimSpace (Text m4) \<noteq> ''/start''"
  shows "email_requests
           (snd (run secrets post sts
                  [\<lparr>Message = Some m1\<rparr>, \<lparr>Message = Some m2\<rparr>,
                   \<lparr>Message = Some m3\<rparr>, \<lparr>Message = Some m4\<rparr>]))
           = [PostForm apiURL
                [(''format'', [''json'']),
                 (''api_key'', [UnisenderAPIKey secrets]),
                 (''sender_name'', [TrimSpace (Text m4)]),
                 (''sender_email'', [SenderEmail secrets]),
                 (''email'', [TargetEmail secrets]),
                 (''subject'', [TrimSpace (Text m2)]),
                 (''body'', [TrimSpace (Text m3)]),
                 (''list_id'', [''1'']),
                 (''error_checking'', [''1''])]]
       \<and> map_option State
           (fst (run secrets post sts
                  [\<lparr>Message = Some m1\<rparr>, \<lparr>Message = Some m2\<rparr>,
                   \<lparr>Message = Some m3\<rparr>, \<lparr>Message = Some m4\<rparr>]) uid)
           = Some ''initial''"
proof -
  define r1 where "r1 = r\<lparr>State := ''await_subject''\<rparr>"
  define r2 where "r2 = r1\<lparr>Subject := TrimSpace (Text m2), State := ''await_body''\<rparr>"
  define r3 where "r3 = r2\<lparr>Body := TrimSpace (Text m3), State := ''await_sender''\<rparr>"
  define r4 where "r4 = r3\<lparr>SenderName := TrimSpace (Text m4), State := ''initial''\<rparr>"
  define sts1 where "sts1 = sts(uid \<mapsto> r1)"
  define sts2 where "sts2 = sts1(uid \<mapsto> r2)"
  define sts3 where "sts3 = sts2(uid \<mapsto> r3)"
  define sts4 where "sts4 = sts3(uid \<mapsto> r4)"
  have step1: "handle_update secrets post sts \<lparr>Message = Some m1\<rparr>
      = (sts1, [SendMessage (Chat_ID m1) msg_enter_subject (RemoveKeyboard False)])"
    using label_branch [of "\<lparr>Message = Some m1\<rparr>" m1 sts r secrets post] rec from_user(1) label
    by (simp add: sts1_def r1_def)
  have step2: "handle_update secrets post sts1 \<lparr>Message = Some m2\<rparr>
      = (sts2, [SendMessage (Chat_ID m2) msg_enter_body NoMarkup])"
    using subject_branch [of "\<lparr>Message = Some m2\<rparr>" m2 sts1 r1 secrets post]
      from_user(2) texts(1)
    by (simp add: sts1_def sts2_def r1_def r2_def)
  have step3: "handle_update secrets post sts2 \<lparr>Message = Some m3\<rparr>
      = (sts3, [SendMessage (Chat_ID m3) msg_enter_sender NoMarkup])"
    using body_branch [of "\<lparr>Message = Some m3\<rparr>" m3 sts2 r2 secrets post]
      from_user(3) texts(2)
    by (simp add: sts2_def sts3_def r2_def r3_def)
  have step4: "handle_update secrets post sts3 \<lparr>Message = Some m4\<rparr>
      = (sts4,
         [SendMessage (Chat_ID m4) msg_sending NoMarkup,
          PostForm apiURL
            (form_data (UnisenderAPIKey secrets) (TargetEmail secrets) (SenderEmail secrets)
               (TrimSpace (Text m2)) (TrimSpace (Text m3)) (TrimSpace (Text m4))),
          SendMessage (Chat_ID m4)
            (finalMsgText
               (outcome
                  (snd (SendEmailViaUnisender post (UnisenderAPIKey secrets)
                          (TargetEmail secrets) (SenderEmail secrets)
                          (TrimSpace (Text m2)) (TrimSpace (Text m3)) (TrimSpace (Text m4)))))
             @ msg_invitation)
            initialKeyboard])"
    using sender_branch [of "\<lparr>Message = Some m4\<rparr>" m4 sts3 r3 secrets post]
      from_user(4) texts(3)
    by (simp add: sts3_def sts4_def r1_def r2_def r3_def r4_def)
  have run4: "run secrets post sts
                [\<lparr>Message = Some m1\<rparr>, \<lparr>Message = Some m2\<rparr>,
                 \<lparr>Message = Some m3\<rparr>, \<lparr>Message = Some m4\<rparr>]
      = (sts4,
         [SendMessage (Chat_ID m1) msg_enter_subject (RemoveKeyboard False),
          SendMessage (Chat_ID m2) msg_enter_body NoMarkup,
          SendMessage (Chat_ID m3) msg_enter_sender NoMarkup,
          SendMessage (Chat_ID m4) msg_sending NoMarkup,
          PostForm apiURL
            (form_data (UnisenderAPIKey secrets) (TargetEmail secrets) (SenderEmail secrets)
               (TrimSpace (Text m2)) (TrimSpace (Text m3)) (TrimSpace (Text m4))),
          SendMessage (Chat_ID m4)
            (finalMsgText
               (outcome
                  (snd (SendEmailViaUnisender post (UnisenderAPIKey secrets)
                          (TargetEmail secrets) (SenderEmail secrets)
                          (TrimSpace (Text m2)) (TrimSpace (Text m3)) (TrimSpace (Text m4)))))
             @ msg_invitation)
            initialKeyboard])"
    by (simp add: step1 step2 step3 step4)
  have "sts4 uid = Some r4" by (simp add: sts4_def)
  moreover have "State r4 = ''initial''" by (simp add: r4_def)
  ultimately show ?thesis
    unfolding run4 by (simp add: email_requests_simps form_data_def)
qed

theorem full_cycle_sends_one_email_witness:
  "email_requests
     (snd (run ex_secrets (ex_answer ex_ids) [7 \<mapsto> ex_record ''initial'']
            [ex_update NEW_LETTER_BUTTON_TEXT, ex_update '' Hello'', ex_update ''World'',
             ex_update ''Alice'']))
     = [PostForm apiURL
          [(''format'', [''json'']),
           (''api_key'', [''key'']),
           (''sender_name'', [''Alice'']),
           (''sender_email'', [''from@example.org'']),
           (''email'', [''to@example.org'']),
           (''subject'', [''Hello'']),
           (''body'', [''World'']),
           (''list_id'', [''1'']),
           (''error_checking'', [''1''])]]
   \<and> map_option State
       (fst (run ex_secrets (ex_answer ex_ids) [7 \<mapsto> ex_record ''initial'']
              [ex_update NEW_LETTER_BUTTON_TEXT, ex_update '' Hello'', ex_update ''World'',
               ex_update ''Alice'']) 7)
     = Some ''initial''"
proof -
  have t: "TrimSpace '' Hello'' = ''Hello''" "TrimSpace ''World'' = ''World''"
    "TrimSpace ''Alice'' = ''Alice''"
    by (simp_all add: TrimSpace_def strip.simps space_runes_def)
  have rec: "[7 \<mapsto> ex_record ''initial''] (7::int) = Some (ex_record ''initial'')"
    "State (ex_record ''initial'') = ''initial''"
    by (simp_all add: ex_record_def)
  have texts: "TrimSpace (Text (ex_message '' Hello'')) \<noteq> ''/start''"
    "TrimSpace (Text (ex_message ''World'')) \<noteq> ''/start''"
    "TrimSpace (Text (ex_message ''Alice'')) \<noteq> ''/start''"
    by (simp_all add: ex_message_fields t)
  have label: "TrimSpace (Text (ex_message NEW_LETTER_BUTTON_TEXT)) = NEW_LETTER_BUTTON_TEXT"
    by (simp add: ex_message_fields TrimSpace_label)
  show ?thesis
    using full_cycle_sends_one_email [where secrets = ex_secrets and post = "ex_answer ex_ids"
        and sts = "[7 \<mapsto> ex_record ''initial'']" and uid = 7
        and ?m1.0 = "ex_message NEW_LETTER_BUTTON_TEXT" and ?m2.0 = "ex_message '' Hello''"
        and ?m3.0 = "ex_message ''World''" and ?m4.0 = "ex_message ''Alice''",
        OF rec ex_message_fields(1) ex_message_fields(1) ex_message_fields(1)
          ex_message_fields(1) label texts]
    by (simp add: ex_update_def ex_message_fields t ex_secrets_def)
qed

end
